theory Spec2Isabelle
  imports Complex_Main "HOL-Library.Word"
begin

section \<open>JavaScript strings\<close>

text \<open>
  A JavaScript string is a sequence of UTF-16 code units, and \<open>length\<close>, \<open>startsWith\<close>,
  \<open>substring\<close>, \<open>indexOf\<close> and \<open>includes\<close> all count code units. The model keeps that:
  a string is a list of 16-bit words. \<open>lit\<close> turns an ASCII literal of the source into
  such a list.
\<close>

type_synonym jsstring = "16 word list"

definition lit :: "string \<Rightarrow> jsstring" where
  "lit s = map of_char s"

text \<open>
  The code units that \<open>String.prototype.trim\<close> removes and that \<open>\s\<close> matches in a regular
  expression: WhiteSpace and LineTerminator of ECMA-262 (TAB, LF, VT, FF, CR, SP, NBSP,
  U+1680, U+2000 to U+200A, U+2028, U+2029, U+202F, U+205F, U+3000, U+FEFF).
\<close>

definition isWhiteSpace :: "16 word \<Rightarrow> bool" where
  "isWhiteSpace c =
     ((0x09 \<le> c \<and> c \<le> 0x0D) \<or> c = 0x20 \<or> c = 0xA0 \<or> c = 0x1680 \<or>
      (0x2000 \<le> c \<and> c \<le> 0x200A) \<or> c = 0x2028 \<or> c = 0x2029 \<or> c = 0x202F \<or>
      c = 0x205F \<or> c = 0x3000 \<or> c = 0xFEFF)"

definition trimStart :: "jsstring \<Rightarrow> jsstring" where
  "trimStart s = dropWhile isWhiteSpace s"

definition trimEnd :: "jsstring \<Rightarrow> jsstring" where
  "trimEnd s = rev (dropWhile isWhiteSpace (rev s))"

definition trim :: "jsstring \<Rightarrow> jsstring" where
  "trim s = trimStart (trimEnd s)"

definition startsWith :: "jsstring \<Rightarrow> jsstring \<Rightarrow> bool" where
  "startsWith s p = (take (length p) s = p)"

definition endsWith :: "jsstring \<Rightarrow> jsstring \<Rightarrow> bool" where
  "endsWith s p = (length p \<le> length s \<and> drop (length s - length p) s = p)"

fun js_includes :: "jsstring \<Rightarrow> jsstring \<Rightarrow> bool" where
  "js_includes [] p = (p = [])"
| "js_includes (c # cs) p = (startsWith (c # cs) p \<or> js_includes cs p)"

text \<open>\<open>xs.join(sep)\<close> on a list of strings.\<close>

fun join :: "jsstring \<Rightarrow> jsstring list \<Rightarrow> jsstring" where
  "join sep [] = []"
| "join sep [x] = x"
| "join sep (x # y # ys) = x @ sep @ join sep (y # ys)"

text \<open>
  \<open>s.split(c)\<close> for a separator of one code unit (and the same split of a list of
  bytes): the pieces between the separators, the empty ones included.
\<close>

fun split :: "'a \<Rightarrow> 'a list \<Rightarrow> 'a list list" where
  "split c [] = [[]]"
| "split c (x # xs) =
     (if x = c then [] # split c xs
      else (case split c xs of p # ps \<Rightarrow> (x # p) # ps | [] \<Rightarrow> [[x]]))"

text \<open>\<open>xs.indexOf(x)\<close>: the first index holding \<open>x\<close>; \<open>None\<close> is the source's \<open>-1\<close>.\<close>

fun indexOf :: "'a list \<Rightarrow> 'a \<Rightarrow> nat option" where
  "indexOf [] y = None"
| "indexOf (x # xs) y =
     (if x = y then Some 0 else (case indexOf xs y of None \<Rightarrow> None | Some i \<Rightarrow> Some (Suc i)))"

text \<open>\<open>xs[i]\<close>: \<open>None\<close> is \<open>undefined\<close>, what JavaScript reads beyond the end of an array.\<close>

definition at_index :: "'a list \<Rightarrow> nat \<Rightarrow> 'a option" where
  "at_index xs i = (if i < length xs then Some (xs ! i) else None)"

text \<open>
  \<open>ToString\<close> of a non-negative integer below \<open>10^21\<close>, as a template literal prints a
  length or a count: its decimal digits.
\<close>

definition digit :: "nat \<Rightarrow> 16 word" where
  "digit d = of_nat (48 + d)"

fun show_nat :: "nat \<Rightarrow> jsstring" where
  "show_nat n = (if n < 10 then [digit n] else show_nat (n div 10) @ [digit (n mod 10)])"

declare show_nat.simps [simp del]

section \<open>Errors\<close>

text \<open>A thrown value: the constructor of the error object and its \<open>message\<close>.\<close>

datatype js_error =
    Error jsstring
  | TypeError jsstring
  | URIError jsstring
  | SyntaxError jsstring

fun message :: "js_error \<Rightarrow> jsstring" where
  "message (Error m) = m"
| "message (TypeError m) = m"
| "message (URIError m) = m"
| "message (SyntaxError m) = m"

section \<open>Configuration\<close>

record config =
  maxReviews :: nat

definition config :: config where
  "config = \<lparr> maxReviews = 50 \<rparr>"

section \<open>Fetching the reviews of a place\<close>

text \<open>
  The body of the place-detail response as \<open>getPlaceReviews\<close> reads it: an optional
  \<open>displayName\<close> and an optional list \<open>reviews\<close>; each raw review has optional \<open>text\<close>
  and \<open>originalText\<close> objects (each with an optional \<open>text\<close> string), an optional
  \<open>rating\<close> and an optional \<open>publishTime\<close>. A rating is a number of stars.
\<close>

record localized_text =
  lt_text :: "jsstring option"

record raw_review =
  raw_text :: "localized_text option"
  raw_originalText :: "localized_text option"
  raw_rating :: "nat option"
  raw_publishTime :: "jsstring option"

record place_details =
  displayName :: "localized_text option"
  pd_reviews :: "raw_review list option"

text \<open>
  What \<open>fetch\<close> resolved to: \<open>response.ok\<close>, \<open>response.status\<close>, and the outcome of
  \<open>await response.json()\<close>, which throws when the body is not JSON.
\<close>

record http_response =
  ok :: bool
  status :: nat
  json_body :: "js_error + place_details"

record review =
  r_text :: jsstring
  r_rating :: "nat option"
  r_time :: "jsstring option"

record review_batch =
  name :: "jsstring option"
  batch_reviews :: "review list"
  totalFound :: nat
  totalAvailable :: nat
  limitApplied :: bool

text \<open>\<open>x?.text\<close>: \<open>undefined\<close> when \<open>x\<close> is missing.\<close>

definition opt_text :: "localized_text option \<Rightarrow> jsstring option" where
  "opt_text x = (case x of None \<Rightarrow> None | Some l \<Rightarrow> lt_text l)"

text \<open>\<open>a || b || ''\<close> on optional strings: the first one that is present and not empty.\<close>

definition first_text :: "jsstring option \<Rightarrow> jsstring option \<Rightarrow> jsstring" where
  "first_text a b =
     (case a of
        Some (c # cs) \<Rightarrow> c # cs
      | _ \<Rightarrow> (case b of Some (c # cs) \<Rightarrow> c # cs | _ \<Rightarrow> []))"

definition mapReview :: "raw_review \<Rightarrow> review" where
  "mapReview r =
     \<lparr> r_text = first_text (opt_text (raw_text r)) (opt_text (raw_originalText r)),
       r_rating = raw_rating r,
       r_time = raw_publishTime r \<rparr>"

definition substantial :: "review \<Rightarrow> bool" where
  "substantial r = (length (r_text r) > 10)"

definition rawReviews :: "place_details \<Rightarrow> raw_review list" where
  "rawReviews d = (case pd_reviews d of None \<Rightarrow> [] | Some rs \<Rightarrow> rs)"

definition getPlaceReviews :: "http_response \<Rightarrow> js_error + review_batch" where
  "getPlaceReviews response =
     (if \<not> ok response
      then Inl (Error (lit ''Failed to get reviews: '' @ show_nat (status response)))
      else
        (case json_body response of
           Inl e \<Rightarrow> Inl e
         | Inr d \<Rightarrow>
             (let totalAvailableReviews = length (rawReviews d);
                  rs = take (maxReviews config) (filter substantial (map mapReview (rawReviews d)))
              in if length rs = 0
                 then Inl (Error (lit ''No substantial reviews found for this place.''))
                 else Inr \<lparr> name = opt_text (displayName d),
                            batch_reviews = rs,
                            totalFound = length rs,
                            totalAvailable = totalAvailableReviews,
                            limitApplied = (totalAvailableReviews > maxReviews config) \<rparr>)))"

section \<open>Numbers\<close>

text \<open>
  JavaScript numbers are IEEE 754 doubles. The fallback analysis divides a sum of ratings
  and a count by the number of reviews, multiplies by 100, rounds and prints; the values
  that arise are \<open>NaN\<close> (from \<open>0/0\<close>), \<open>Infinity\<close> and non-negative finite doubles.
  \<open>Fin m e\<close> is the double of value \<open>m * 2^e\<close>. The inputs of the arithmetic are
  non-negative integers that a double holds exactly (below \<open>2^53\<close>), so every quotient
  and product lies in the range of normal doubles, where rounding to nearest with ties to
  even keeps 53 significant bits.
\<close>

datatype jsnum = NaN | Infinity | Fin nat int

text \<open>The number of binary digits of \<open>n\<close>.\<close>

fun bits :: "nat \<Rightarrow> nat" where
  "bits n = (if n = 0 then 0 else Suc (bits (n div 2)))"

declare bits.simps [simp del]

text \<open>The integer nearest to \<open>a / b\<close>, the even one of two equally near.\<close>

definition round_half_even :: "nat \<Rightarrow> nat \<Rightarrow> nat" where
  "round_half_even a b =
     (let q = a div b; r = a mod b
      in if 2 * r < b then q
         else if b < 2 * r then q + 1
         else if even q then q else q + 1)"

text \<open>
  The double nearest to the rational \<open>a / b\<close> (\<open>b > 0\<close>): with \<open>l\<close> the integer such that
  \<open>2^l \<le> a / b < 2^(l+1)\<close>, the quotient is rounded to a multiple of \<open>2^(l - 52)\<close>.
\<close>

definition fl_ratio :: "nat \<Rightarrow> nat \<Rightarrow> jsnum" where
  "fl_ratio a b =
     (if a = 0 then Fin 0 0
      else
        (let d = int (bits a) - int (bits b);
             l = (if b * 2 ^ nat d \<le> a * 2 ^ nat (- d) then d else d - 1);
             e = l - 52
         in Fin (round_half_even (a * 2 ^ nat (- e)) (b * 2 ^ nat e)) e))"

text \<open>\<open>a / b\<close> for non-negative integers \<open>a\<close> and \<open>b\<close>.\<close>

definition js_divide :: "nat \<Rightarrow> nat \<Rightarrow> jsnum" where
  "js_divide a b =
     (if b = 0 then (if a = 0 then NaN else Infinity) else fl_ratio a b)"

text \<open>\<open>x * c\<close> for a positive integer \<open>c\<close>.\<close>

fun js_times :: "jsnum \<Rightarrow> nat \<Rightarrow> jsnum" where
  "js_times NaN c = NaN"
| "js_times Infinity c = Infinity"
| "js_times (Fin m e) c = fl_ratio (m * c * 2 ^ nat e) (2 ^ nat (- e))"

text \<open>\<open>Math.round(x)\<close>: the integer nearest to \<open>x\<close>, the larger one of two equally near.\<close>

fun Math_round :: "jsnum \<Rightarrow> jsnum" where
  "Math_round NaN = NaN"
| "Math_round Infinity = Infinity"
| "Math_round (Fin m e) =
     Fin ((2 * m * 2 ^ nat e + 2 ^ nat (- e)) div (2 * 2 ^ nat (- e))) 0"

text \<open>\<open>x < p / q\<close> for a positive rational \<open>p / q\<close>; a comparison with \<open>NaN\<close> is false.\<close>

fun js_less_ratio :: "jsnum \<Rightarrow> nat \<Rightarrow> nat \<Rightarrow> bool" where
  "js_less_ratio NaN p q = False"
| "js_less_ratio Infinity p q = False"
| "js_less_ratio (Fin m e) p q = (q * m * 2 ^ nat e < p * 2 ^ nat (- e))"

text \<open>
  \<open>ToString(x)\<close> as a template literal prints it, for \<open>NaN\<close>, \<open>Infinity\<close> and a
  non-negative integer below \<open>10^21\<close> (the results of \<open>Math.round\<close> that arise).
\<close>

fun js_toString :: "jsnum \<Rightarrow> jsstring" where
  "js_toString NaN = lit ''NaN''"
| "js_toString Infinity = lit ''Infinity''"
| "js_toString (Fin m e) = show_nat (m * 2 ^ nat e div 2 ^ nat (- e))"

text \<open>
  \<open>x.toFixed(1)\<close> for \<open>x\<close> below \<open>10^21\<close>: with \<open>n\<close> the integer for which \<open>n / 10 - x\<close> is
  nearest to zero (the larger one of two such), the digits of \<open>n\<close> with a point before the
  last, and a leading \<open>0\<close> when \<open>n < 10\<close>.
\<close>

definition tenths :: "nat \<Rightarrow> int \<Rightarrow> nat" where
  "tenths m e = (20 * m * 2 ^ nat e + 2 ^ nat (- e)) div (2 * 2 ^ nat (- e))"

fun toFixed1 :: "jsnum \<Rightarrow> jsstring" where
  "toFixed1 NaN = lit ''NaN''"
| "toFixed1 Infinity = lit ''Infinity''"
| "toFixed1 (Fin m e) =
     show_nat (tenths m e div 10) @ lit ''.'' @ [digit (tenths m e mod 10)]"

section \<open>JSON values and the analysis result\<close>

text \<open>
  A value as \<open>JSON.parse\<close> returns it. An object is the list of its own properties, read
  by name with \<open>map_of\<close>; a number is the value of the double.
\<close>

datatype json =
    JNull
  | JBool bool
  | JNum rat
  | JStr jsstring
  | JArr "json list"
  | JObj "(jsstring \<times> json) list"

text \<open>\<open>Array.isArray(v)\<close>.\<close>

fun isArray :: "json \<Rightarrow> bool" where
  "isArray (JArr xs) = True"
| "isArray v = False"

text \<open>
  Whether \<open>v || d\<close> keeps \<open>v\<close>: \<open>null\<close>, \<open>false\<close>, \<open>0\<close> and the empty string are falsy,
  every array and object is truthy.
\<close>

fun truthy :: "json \<Rightarrow> bool" where
  "truthy JNull = False"
| "truthy (JBool b) = b"
| "truthy (JNum q) = (q \<noteq> 0)"
| "truthy (JStr s) = (s \<noteq> [])"
| "truthy (JArr xs) = True"
| "truthy (JObj kvs) = True"

record analysis_result =
  overallSentiment :: json
  topicSummaries :: json
  keyInsights :: json
  commonPhrases :: json
  customerPainPoints :: json
  positiveHighlights :: json
  recommendations :: json

section \<open>The fallback analysis\<close>

text \<open>\<open>r.rating || 0\<close>.\<close>

definition rating_or_0 :: "review \<Rightarrow> nat" where
  "rating_or_0 r = (case r_rating r of None \<Rightarrow> 0 | Some n \<Rightarrow> n)"

definition totalRating :: "review list \<Rightarrow> nat" where
  "totalRating reviews = foldl (\<lambda>sum r. sum + rating_or_0 r) 0 reviews"

definition avgRating :: "review list \<Rightarrow> jsnum" where
  "avgRating reviews = js_divide (totalRating reviews) (length reviews)"

definition positiveReviews :: "review list \<Rightarrow> nat" where
  "positiveReviews reviews = length (filter (\<lambda>r. rating_or_0 r \<ge> 4) reviews)"

definition negativeReviews :: "review list \<Rightarrow> nat" where
  "negativeReviews reviews = length (filter (\<lambda>r. rating_or_0 r \<le> 2) reviews)"

definition sentimentOf :: "review list \<Rightarrow> jsstring" where
  "sentimentOf reviews =
     (if positiveReviews reviews > negativeReviews reviews * 2 then lit ''positive''
      else if negativeReviews reviews > positiveReviews reviews * 2 then lit ''negative''
      else lit ''mixed'')"

definition commonWords :: "jsstring list" where
  "commonWords = map lit [''great'', ''good'', ''excellent'', ''amazing'', ''love'', ''best'',
     ''perfect'']"

definition negativeWords :: "jsstring list" where
  "negativeWords = map lit [''bad'', ''terrible'', ''awful'', ''worst'', ''hate'',
     ''disappointing'']"

text \<open>
  \<open>toLowerCase\<close> is the case mapping of the Unicode standard, which the method takes from
  the host: it is a parameter of the model.
\<close>

definition allText :: "(jsstring \<Rightarrow> jsstring) \<Rightarrow> review list \<Rightarrow> jsstring" where
  "allText toLowerCase reviews = join (lit '' '') (map (\<lambda>r. toLowerCase (r_text r)) reviews)"

definition foundPositive :: "(jsstring \<Rightarrow> jsstring) \<Rightarrow> review list \<Rightarrow> jsstring list" where
  "foundPositive toLowerCase reviews =
     filter (\<lambda>word. js_includes (allText toLowerCase reviews) word) commonWords"

definition foundNegative :: "(jsstring \<Rightarrow> jsstring) \<Rightarrow> review list \<Rightarrow> jsstring list" where
  "foundNegative toLowerCase reviews =
     filter (\<lambda>word. js_includes (allText toLowerCase reviews) word) negativeWords"

definition generateFallbackAnalysis ::
  "(jsstring \<Rightarrow> jsstring) \<Rightarrow> jsstring option \<Rightarrow> review list \<Rightarrow> analysis_result" where
  "generateFallbackAnalysis toLowerCase placeName reviews =
     \<lparr> overallSentiment = JStr (sentimentOf reviews),
       topicSummaries = JArr
         [JObj
            [(lit ''topic'', JStr (lit ''Overall Experience'')),
             (lit ''summary'', JStr
                (lit ''Based on '' @ show_nat (length reviews) @
                 lit '' reviews with an average rating of '' @ toFixed1 (avgRating reviews) @
                 lit ''/5 stars. '' @ show_nat (positiveReviews reviews) @
                 lit '' positive reviews vs '' @ show_nat (negativeReviews reviews) @
                 lit '' negative reviews.'')),
             (lit ''mentionCount'', JNum (of_nat (length reviews)))]],
       keyInsights = JArr
         [JStr (lit ''Average rating: '' @ toFixed1 (avgRating reviews) @ lit ''/5 stars''),
          JStr (js_toString
                  (Math_round (js_times (js_divide (positiveReviews reviews) (length reviews)) 100)) @
                lit ''% of reviews are positive (4+ stars)''),
          JStr (lit ''Analyzed '' @ show_nat (length reviews) @
                lit '' customer reviews for patterns and sentiment'')],
       commonPhrases = JArr (map JStr
         (if length (foundPositive toLowerCase reviews) > 0
          then take 5 (foundPositive toLowerCase reviews) else [lit ''N/A''])),
       customerPainPoints = JArr (map JStr
         (if length (foundNegative toLowerCase reviews) > 0
          then take 3 (foundNegative toLowerCase reviews)
          else [lit ''No major pain points identified''])),
       positiveHighlights = JArr (map JStr
         (if length (foundPositive toLowerCase reviews) > 0
          then [lit ''Customers frequently mention: '' @
                join (lit '', '') (foundPositive toLowerCase reviews)]
          else [lit ''Generally positive customer feedback''])),
       recommendations = JArr
         [JStr (lit ''Run a full AI analysis for detailed insights''),
          JStr (if js_less_ratio (avgRating reviews) 7 2
                then lit ''Focus on addressing customer concerns''
                else lit ''Continue maintaining quality standards'')] \<rparr>"

section \<open>The analysis engine\<close>

text \<open>\<open>${r.rating}\<close> in a template literal: a missing rating prints as \<open>undefined\<close>.\<close>

definition show_rating :: "nat option \<Rightarrow> jsstring" where
  "show_rating x = (case x of None \<Rightarrow> lit ''undefined'' | Some n \<Rightarrow> show_nat n)"

definition show_optional :: "jsstring option \<Rightarrow> jsstring" where
  "show_optional x = (case x of None \<Rightarrow> lit ''undefined'' | Some s \<Rightarrow> s)"

definition reviewTexts :: "review list \<Rightarrow> jsstring" where
  "reviewTexts reviews =
     join (lit ''\<newline>---\<newline>'')
       (map (\<lambda>r. lit ''Rating: '' @ show_rating (r_rating r) @ lit ''/5 - '' @ r_text r)
          (take 20 reviews))"

definition prompt :: "jsstring option \<Rightarrow> review list \<Rightarrow> jsstring" where
  \<open>prompt placeName reviews =
     lit ''Analyze these customer reviews for "'' @ show_optional placeName @
     lit ''" and provide insights in JSON format.\<newline>\<newline>REVIEWS:\<newline>'' @
     reviewTexts reviews @
     lit ''\<newline>\<newline>Provide your analysis in this exact JSON structure:\<newline>'' @
     join (lit ''\<newline>'')
       (map lit
         [''{'',
          ''  "overallSentiment": "positive",'',
          ''  "topicSummaries": ['',
          ''    {'',
          ''      "topic": "Service Quality",'',
          ''      "summary": "Brief summary of what customers say about service",'',
          ''      "mentionCount": 8'',
          ''    }'',
          ''  ],'',
          ''  "keyInsights": ['',
          ''    "Most important insight from the reviews",'',
          ''    "Second important insight"'',
          ''  ],'',
          ''  "commonPhrases": ["great food", "friendly staff"],'',
          ''  "customerPainPoints": ["long wait times", "expensive prices"],'',
          ''  "positiveHighlights": ["excellent service", "delicious food"],'',
          ''  "recommendations": ["Improve wait times", "Consider more vegetarian options"]'',
          ''}'',
          [],
          ''Focus on the most mentioned topics (food, service, atmosphere, value, etc.). Keep summaries brief and actionable.''])\<close>

text \<open>
  \<open>s.replace(/\s*```$/, '')\<close>: when \<open>s\<close> ends with the fence, the fence and the white
  space before it are removed; otherwise nothing matches.
\<close>

definition fence :: jsstring where
  "fence = lit ''```''"

definition strip_fence_end :: "jsstring \<Rightarrow> jsstring" where
  "strip_fence_end s =
     (if endsWith s fence then trimEnd (take (length s - 3) s) else s)"

text \<open>
  The clean-up of the response. Each \<open>replace\<close> of an opening fence is applied to a string
  that starts with it, so its first match is at the start: the fence (7 code units with
  the language tag, 3 without) and the white space after it are removed.
\<close>

definition cleanResponse :: "jsstring \<Rightarrow> jsstring" where
  "cleanResponse responseText =
     (let c0 = trim responseText;
          c1 = (if startsWith c0 (lit ''```json'')
                then strip_fence_end (trimStart (drop 7 c0)) else c0);
          c2 = (if startsWith c1 fence
                then strip_fence_end (trimStart (drop 3 c1)) else c1)
      in c2)"

text \<open>
  \<open>s.match(/\{[\s\S]*\}/)\<close>: from the first opening brace to the last closing brace
  after it; \<open>None\<close> is \<open>null\<close>, no match.
\<close>

definition jsonMatch :: "jsstring \<Rightarrow> jsstring option" where
  "jsonMatch s =
     (let fromBrace = dropWhile (\<lambda>c. c \<noteq> 0x7B) s;
          toBrace = rev (dropWhile (\<lambda>c. c \<noteq> 0x7D) (rev fromBrace))
      in if toBrace = [] then None else Some toBrace)"

text \<open>
  \<open>analysis.f\<close> for one of the seven fields that are read; none of them is a property
  of a prototype, so only an object has it, as its own property. \<open>None\<close> is \<open>undefined\<close>.
\<close>

fun field :: "json \<Rightarrow> jsstring \<Rightarrow> json option" where
  "field (JObj kvs) f = map_of kvs f"
| "field v f = None"

text \<open>\<open>Array.isArray(analysis.f) ? analysis.f : []\<close>.\<close>

definition arrayOrEmpty :: "json \<Rightarrow> jsstring \<Rightarrow> json" where
  "arrayOrEmpty analysis f =
     (case field analysis f of
        Some (JArr xs) \<Rightarrow> JArr xs
      | _ \<Rightarrow> JArr [])"

text \<open>\<open>analysis.overallSentiment || 'mixed'\<close>.\<close>

definition sentimentOrMixed :: "json \<Rightarrow> json" where
  "sentimentOrMixed analysis =
     (case field analysis (lit ''overallSentiment'') of
        None \<Rightarrow> JStr (lit ''mixed'')
      | Some v \<Rightarrow> (if truthy v then v else JStr (lit ''mixed'')))"

text \<open>
  The validation of the parsed value. Reading a property of \<open>null\<close> throws a
  \<open>TypeError\<close>; every other value can be read.
\<close>

definition validatedAnalysis :: "json \<Rightarrow> js_error + analysis_result" where
  "validatedAnalysis analysis =
     (if analysis = JNull
      then Inl (TypeError (lit ''Cannot read properties of null''))
      else Inr \<lparr> overallSentiment = sentimentOrMixed analysis,
                 topicSummaries = arrayOrEmpty analysis (lit ''topicSummaries''),
                 keyInsights = arrayOrEmpty analysis (lit ''keyInsights''),
                 commonPhrases = arrayOrEmpty analysis (lit ''commonPhrases''),
                 customerPainPoints = arrayOrEmpty analysis (lit ''customerPainPoints''),
                 positiveHighlights = arrayOrEmpty analysis (lit ''positiveHighlights''),
                 recommendations = arrayOrEmpty analysis (lit ''recommendations'') \<rparr>)"

text \<open>
  The host of the analysis: the generative provider, from the prompt to the text of its
  response or to the error that the call or \<open>response.text()\<close> throws; \<open>JSON.parse\<close>,
  which throws a \<open>SyntaxError\<close> on a text that is not JSON; and \<open>toLowerCase\<close>.
\<close>

record host =
  generateContent :: "jsstring \<Rightarrow> js_error + jsstring"
  JSON_parse :: "jsstring \<Rightarrow> js_error + json"
  toLowerCase :: "jsstring \<Rightarrow> jsstring"

text \<open>
  The body of the \<open>try\<close> block of \<open>analyzeReviews\<close>: \<open>Inl\<close> is an exception thrown in it,
  \<open>Inr\<close> the value it returns (the fallback analysis when the response has no JSON).
\<close>

definition primaryPath :: "host \<Rightarrow> jsstring option \<Rightarrow> review list \<Rightarrow> js_error + analysis_result" where
  "primaryPath h placeName reviews =
     (case generateContent h (prompt placeName reviews) of
        Inl e \<Rightarrow> Inl e
      | Inr responseText \<Rightarrow>
          (case jsonMatch (cleanResponse responseText) of
             None \<Rightarrow> Inr (generateFallbackAnalysis (toLowerCase h) placeName reviews)
           | Some text \<Rightarrow>
               (case JSON_parse h text of
                  Inl e \<Rightarrow> Inl e
                | Inr analysis \<Rightarrow> validatedAnalysis analysis)))"

text \<open>
  \<open>analyzeReviews\<close>: the \<open>catch\<close> clause answers every exception of the \<open>try\<close> block with
  the fallback analysis. The result is the outcome of the asynchronous method: \<open>Inr\<close> the
  value it resolves to, \<open>Inl\<close> an error it would reject with.
\<close>

definition analyzeReviews :: "host \<Rightarrow> jsstring option \<Rightarrow> review list \<Rightarrow> js_error + analysis_result" where
  "analyzeReviews h placeName reviews =
     (case primaryPath h placeName reviews of
        Inl e \<Rightarrow> Inr (generateFallbackAnalysis (toLowerCase h) placeName reviews)
      | Inr validated \<Rightarrow> Inr validated)"

section \<open>The URL resolver\<close>

subsection \<open>UTF-8 and UTF-16\<close>

text \<open>
  Bytes and code points are natural numbers. \<open>utf16\<close> is the UTF-16 encoding of a code
  point, \<open>utf8\<close> its UTF-8 encoding.
\<close>

definition utf16 :: "nat \<Rightarrow> jsstring" where
  "utf16 v =
     (if v < 0x10000 then [of_nat v]
      else [of_nat (0xD800 + (v - 0x10000) div 0x400),
            of_nat (0xDC00 + (v - 0x10000) mod 0x400)])"

definition utf8 :: "nat \<Rightarrow> nat list" where
  "utf8 v =
     (if v < 0x80 then [v]
      else if v < 0x800 then [0xC0 + v div 0x40, 0x80 + v mod 0x40]
      else if v < 0x10000
        then [0xE0 + v div 0x1000, 0x80 + (v div 0x40) mod 0x40, 0x80 + v mod 0x40]
      else [0xF0 + v div 0x40000, 0x80 + (v div 0x1000) mod 0x40,
            0x80 + (v div 0x40) mod 0x40, 0x80 + v mod 0x40])"

definition continuation :: "nat \<Rightarrow> bool" where
  "continuation b = (0x80 \<le> b \<and> b \<le> 0xBF)"

text \<open>
  The code point that a sequence of bytes encodes, when the sequence is exactly one
  well-formed UTF-8 sequence of two to four bytes (Table 3-7 of the Unicode standard: no
  overlong form, no surrogate, nothing above U+10FFFF).
\<close>

fun utf8_code_point :: "nat list \<Rightarrow> nat option" where
  "utf8_code_point [b1, b2] =
     (if 0xC2 \<le> b1 \<and> b1 \<le> 0xDF \<and> continuation b2
      then Some ((b1 - 0xC0) * 0x40 + (b2 - 0x80)) else None)"
| "utf8_code_point [b1, b2, b3] =
     (if 0xE0 \<le> b1 \<and> b1 \<le> 0xEF \<and>
         (if b1 = 0xE0 then 0xA0 else 0x80) \<le> b2 \<and> b2 \<le> (if b1 = 0xED then 0x9F else 0xBF) \<and>
         continuation b3
      then Some ((b1 - 0xE0) * 0x1000 + (b2 - 0x80) * 0x40 + (b3 - 0x80)) else None)"
| "utf8_code_point [b1, b2, b3, b4] =
     (if 0xF0 \<le> b1 \<and> b1 \<le> 0xF4 \<and>
         (if b1 = 0xF0 then 0x90 else 0x80) \<le> b2 \<and> b2 \<le> (if b1 = 0xF4 then 0x8F else 0xBF) \<and>
         continuation b3 \<and> continuation b4
      then Some ((b1 - 0xF0) * 0x40000 + (b2 - 0x80) * 0x1000 + (b3 - 0x80) * 0x40 + (b4 - 0x80))
      else None)"
| "utf8_code_point bs = None"

text \<open>The value of a hexadecimal digit.\<close>

definition hexval :: "nat \<Rightarrow> nat option" where
  "hexval c =
     (if 0x30 \<le> c \<and> c \<le> 0x39 then Some (c - 0x30)
      else if 0x41 \<le> c \<and> c \<le> 0x46 then Some (c - 0x37)
      else if 0x61 \<le> c \<and> c \<le> 0x66 then Some (c - 0x57)
      else None)"

definition hexOctet :: "nat \<Rightarrow> nat \<Rightarrow> nat option" where
  "hexOctet h1 h2 =
     (case hexval h1 of
        None \<Rightarrow> None
      | Some a \<Rightarrow> (case hexval h2 of None \<Rightarrow> None | Some b \<Rightarrow> Some (16 * a + b)))"

subsection \<open>decodeURIComponent\<close>

text \<open>
  \<open>decodeURIComponent\<close> (the operation \<open>Decode\<close> of ECMA-262 with no preserved escapes).
  Every \<open>%\<close> must start an escape \<open>%XX\<close> of two hexadecimal digits. An escape below
  \<open>0x80\<close> is that code unit; an escape with two, three or four leading one bits starts a
  UTF-8 sequence of that many bytes, each of them escaped, which must be well formed and
  is replaced by the UTF-16 encoding of its code point. Anything else throws a
  \<open>URIError\<close>. The model first reads the escapes and then joins them; the outcome is an
  error exactly when the left-to-right scan of the standard throws.
\<close>

datatype token = Lit "16 word" | Esc nat

fun tokens :: "jsstring \<Rightarrow> token list option" where
  "tokens [] = Some []"
| "tokens (c # s) =
     (if c = 0x25
      then (case s of
              h1 # h2 # r \<Rightarrow>
                (case hexOctet (unat h1) (unat h2) of
                   None \<Rightarrow> None
                 | Some b \<Rightarrow> (case tokens r of None \<Rightarrow> None | Some ts \<Rightarrow> Some (Esc b # ts)))
            | _ \<Rightarrow> None)
      else (case tokens s of None \<Rightarrow> None | Some ts \<Rightarrow> Some (Lit c # ts)))"

text \<open>The bytes of the next \<open>n\<close> tokens when all of them are escapes.\<close>

fun escapes :: "nat \<Rightarrow> token list \<Rightarrow> (nat list \<times> token list) option" where
  "escapes 0 ts = Some ([], ts)"
| "escapes (Suc n) (Esc b # ts) =
     (case escapes n ts of None \<Rightarrow> None | Some (bs, r) \<Rightarrow> Some (b # bs, r))"
| "escapes (Suc n) ts = None"

text \<open>The number of leading one bits of a byte from \<open>0x80\<close>, when it is 2, 3 or 4.\<close>

definition sequenceLength :: "nat \<Rightarrow> nat option" where
  "sequenceLength b =
     (if 0xC0 \<le> b \<and> b \<le> 0xDF then Some 2
      else if 0xE0 \<le> b \<and> b \<le> 0xEF then Some 3
      else if 0xF0 \<le> b \<and> b \<le> 0xF7 then Some 4
      else None)"

lemma escapes_length:
  "escapes n ts = Some (bs, r) \<Longrightarrow> length r \<le> length ts"
proof (induction n ts arbitrary: bs r rule: escapes.induct)
  case (2 n b ts)
  then show ?case by (auto split: option.splits)
qed auto

function assemble :: "token list \<Rightarrow> jsstring option" where
  "assemble [] = Some []"
| "assemble (Lit c # ts) =
     (case assemble ts of None \<Rightarrow> None | Some s \<Rightarrow> Some (c # s))"
| "assemble (Esc b # ts) =
     (if b < 0x80
      then (case assemble ts of None \<Rightarrow> None | Some s \<Rightarrow> Some (of_nat b # s))
      else (case sequenceLength b of
              None \<Rightarrow> None
            | Some n \<Rightarrow>
                (case escapes (n - 1) ts of
                   None \<Rightarrow> None
                 | Some (bs, r) \<Rightarrow>
                     (case utf8_code_point (b # bs) of
                        None \<Rightarrow> None
                      | Some v \<Rightarrow>
                          (case assemble r of None \<Rightarrow> None | Some s \<Rightarrow> Some (utf16 v @ s))))))"
  by pat_completeness auto
termination
  by (relation "measure length") (auto dest: escapes_length)

definition decodeURIComponent :: "jsstring \<Rightarrow> js_error + jsstring" where
  "decodeURIComponent s =
     (case tokens s of
        None \<Rightarrow> Inl (URIError (lit ''URI malformed''))
      | Some ts \<Rightarrow>
          (case assemble ts of
             None \<Rightarrow> Inl (URIError (lit ''URI malformed''))
           | Some r \<Rightarrow> Inr r))"

subsection \<open>URLSearchParams\<close>

text \<open>
  \<open>urlObj.searchParams\<close> is the result of the \<open>application/x-www-form-urlencoded\<close> parser
  of the URL standard on the query: the UTF-8 bytes of the query are split at \<open>&\<close>, each
  non-empty piece at its first \<open>=\<close> into a name and a value, in both of which every \<open>+\<close>
  becomes a space and every escape \<open>%XX\<close> its byte; the bytes are then decoded as UTF-8,
  with U+FFFD in place of each ill-formed sequence.
\<close>

text \<open>
  The UTF-8 bytes of a string; a surrogate code unit without its partner is encoded as
  U+FFFD.
\<close>

fun utf8_encode :: "jsstring \<Rightarrow> nat list" where
  "utf8_encode [] = []"
| "utf8_encode [c] =
     (if 0xD800 \<le> unat c \<and> unat c < 0xE000 then utf8 0xFFFD else utf8 (unat c))"
| "utf8_encode (c # d # s) =
     (if 0xD800 \<le> unat c \<and> unat c < 0xDC00
      then (if 0xDC00 \<le> unat d \<and> unat d < 0xE000
            then utf8 (0x10000 + (unat c - 0xD800) * 0x400 + (unat d - 0xDC00)) @ utf8_encode s
            else utf8 0xFFFD @ utf8_encode (d # s))
      else if 0xDC00 \<le> unat c \<and> unat c < 0xE000 then utf8 0xFFFD @ utf8_encode (d # s)
      else utf8 (unat c) @ utf8_encode (d # s))"

text \<open>
  The UTF-8 decoder of the Encoding standard with replacement: the code points of a byte
  sequence. The state is the code point under construction, the number of bytes still
  needed, and the bounds of the next byte; a byte that does not continue a sequence ends
  it with U+FFFD and is read again as the start of the next one.
\<close>

fun utf8_decode :: "nat \<Rightarrow> nat \<Rightarrow> nat \<Rightarrow> nat \<Rightarrow> nat list \<Rightarrow> nat list" where
  "utf8_decode cp needed lower upper [] = (if needed = 0 then [] else [0xFFFD])"
| "utf8_decode cp needed lower upper (b # bs) =
     (if needed = 0
      then (if b \<le> 0x7F then b # utf8_decode 0 0 0x80 0xBF bs
            else if 0xC2 \<le> b \<and> b \<le> 0xDF then utf8_decode (b - 0xC0) 1 0x80 0xBF bs
            else if 0xE0 \<le> b \<and> b \<le> 0xEF
              then utf8_decode (b - 0xE0) 2 (if b = 0xE0 then 0xA0 else 0x80)
                     (if b = 0xED then 0x9F else 0xBF) bs
            else if 0xF0 \<le> b \<and> b \<le> 0xF4
              then utf8_decode (b - 0xF0) 3 (if b = 0xF0 then 0x90 else 0x80)
                     (if b = 0xF4 then 0x8F else 0xBF) bs
            else 0xFFFD # utf8_decode 0 0 0x80 0xBF bs)
      else if b < lower \<or> upper < b then 0xFFFD # utf8_decode 0 0 0x80 0xBF (b # bs)
      else if needed = 1 then (cp * 0x40 + (b - 0x80)) # utf8_decode 0 0 0x80 0xBF bs
      else utf8_decode (cp * 0x40 + (b - 0x80)) (needed - 1) 0x80 0xBF bs)"

definition utf8_decode_without_BOM :: "nat list \<Rightarrow> jsstring" where
  "utf8_decode_without_BOM bs = concat (map utf16 (utf8_decode 0 0 0x80 0xBF bs))"

text \<open>
  Percent-decoding of bytes (URL standard): a \<open>%\<close> that two hexadecimal digits do not
  follow stays as it is.
\<close>

fun percent_decode :: "nat list \<Rightarrow> nat list" where
  "percent_decode (b # h1 # h2 # bs) =
     (if b = 0x25
      then (case hexOctet h1 h2 of
              Some v \<Rightarrow> v # percent_decode bs
            | None \<Rightarrow> b # percent_decode (h1 # h2 # bs))
      else b # percent_decode (h1 # h2 # bs))"
| "percent_decode bs = bs"

text \<open>The part of a list before the first \<open>x\<close> and the part after it.\<close>

definition splitFirst :: "'a \<Rightarrow> 'a list \<Rightarrow> 'a list \<times> 'a list" where
  "splitFirst x xs = (takeWhile (\<lambda>y. y \<noteq> x) xs, drop 1 (dropWhile (\<lambda>y. y \<noteq> x) xs))"

definition formDecode :: "nat list \<Rightarrow> jsstring" where
  "formDecode bs =
     utf8_decode_without_BOM (percent_decode (map (\<lambda>b. if b = 0x2B then 0x20 else b) bs))"

definition urlencoded_parse :: "nat list \<Rightarrow> (jsstring \<times> jsstring) list" where
  "urlencoded_parse input =
     map (\<lambda>bytes. (formDecode (fst (splitFirst 0x3D bytes)), formDecode (snd (splitFirst 0x3D bytes))))
       (filter (\<lambda>bytes. bytes \<noteq> []) (split 0x26 input))"

subsection \<open>The URL object\<close>

text \<open>
  What \<open>parseGoogleMapsUrl\<close> reads of \<open>new URL(cleanUrl)\<close>: \<open>hostname\<close>, \<open>pathname\<close> and,
  through \<open>searchParams\<close>, the query; \<open>search\<close> is the query with its leading \<open>?\<close>, empty
  when the URL has none.
\<close>

record url =
  hostname :: jsstring
  pathname :: jsstring
  search :: jsstring

text \<open>\<open>urlObj.searchParams.get(key)\<close>: the value of the first pair of that name.\<close>

definition searchParams_get :: "url \<Rightarrow> jsstring \<Rightarrow> jsstring option" where
  "searchParams_get urlObj key =
     map_of (urlencoded_parse (utf8_encode (drop 1 (search urlObj)))) key"

subsection \<open>parseGoogleMapsUrl\<close>

text \<open>The first lines of the method: trim, then remove one leading \<open>@\<close>.\<close>

definition cleanUrl :: "jsstring \<Rightarrow> jsstring" where
  "cleanUrl url =
     (let cleanUrl = trim url
      in if startsWith cleanUrl (lit ''@'') then drop 1 cleanUrl else cleanUrl)"

text \<open>\<open>decodeURIComponent(x).replace(/\+/g, ' ')\<close>.\<close>

definition replacePlus :: "jsstring \<Rightarrow> jsstring" where
  "replacePlus s = map (\<lambda>c. if c = 0x2B then 0x20 else c) s"

definition decodeName :: "jsstring \<Rightarrow> js_error + jsstring option" where
  "decodeName x =
     (case decodeURIComponent x of
        Inl e \<Rightarrow> Inl e
      | Inr s \<Rightarrow> Inr (Some (replacePlus s)))"

text \<open>
  The four patterns. Each returns a string, or \<open>undefined\<close> (\<open>None\<close>), or throws the
  error of \<open>decodeURIComponent\<close>.
\<close>

definition pattern_place :: "jsstring list \<Rightarrow> js_error + jsstring option" where
  "pattern_place pathParts =
     (case indexOf pathParts (lit ''place'') of
        None \<Rightarrow> Inr None
      | Some idx \<Rightarrow>
          (case at_index pathParts (idx + 1) of
             None \<Rightarrow> Inr None
           | Some segment \<Rightarrow>
               (if segment \<noteq> [] \<and> \<not> startsWith segment (lit ''@'')
                then decodeName segment else Inr None)))"

definition pattern_search :: "jsstring list \<Rightarrow> js_error + jsstring option" where
  "pattern_search pathParts =
     (case indexOf pathParts (lit ''search'') of
        None \<Rightarrow> Inr None
      | Some idx \<Rightarrow>
          (case at_index pathParts (idx + 1) of
             None \<Rightarrow> Inr None
           | Some segment \<Rightarrow> (if segment \<noteq> [] then decodeName segment else Inr None)))"

definition pattern_query :: "url \<Rightarrow> js_error + jsstring option" where
  "pattern_query urlObj =
     (case searchParams_get urlObj (lit ''q'') of
        None \<Rightarrow> Inr None
      | Some q \<Rightarrow> (if q \<noteq> [] then decodeName q else Inr None))"

definition pattern_short :: "url \<Rightarrow> js_error + jsstring option" where
  "pattern_short urlObj =
     (if js_includes (hostname urlObj) (lit ''maps.app.goo.gl'')
      then (case searchParams_get urlObj (lit ''q'') of
              Some (c # cs) \<Rightarrow> decodeName (c # cs)
            | _ \<Rightarrow>
                (if pathname urlObj \<noteq> [] \<and> pathname urlObj \<noteq> lit ''/''
                 then Inr (Some (lit ''Location from Google Maps'')) else Inr None))
      else Inr None)"

text \<open>
  The loop over the patterns: the first result that is a non-empty string is returned
  trimmed; an error thrown by a pattern that is reached ends the loop.
\<close>

fun firstResult :: "(js_error + jsstring option) list \<Rightarrow> js_error + jsstring option" where
  "firstResult [] = Inr None"
| "firstResult (Inl e # ps) = Inl e"
| "firstResult (Inr None # ps) = firstResult ps"
| "firstResult (Inr (Some r) # ps) = (if r \<noteq> [] then Inr (Some (trim r)) else firstResult ps)"

definition acceptedHost :: "jsstring \<Rightarrow> bool" where
  "acceptedHost h =
     (js_includes h (lit ''google.com'') \<or> js_includes h (lit ''maps.google'') \<or>
      js_includes h (lit ''maps.app.goo.gl''))"

text \<open>
  The body of the \<open>try\<close> block. \<open>newURL\<close> is the constructor \<open>new URL\<close> of the host, the
  parser of the URL standard: \<open>None\<close> when it throws its \<open>TypeError\<close>, whose message is
  \<open>Invalid URL\<close>.
\<close>

definition extractName :: "url \<Rightarrow> js_error + jsstring" where
  "extractName urlObj =
     (if \<not> acceptedHost (hostname urlObj)
      then Inl (Error (lit ''Please provide a valid Google Maps URL''))
      else
        (let pathParts = filter (\<lambda>p. p \<noteq> []) (split 0x2F (pathname urlObj))
         in case firstResult [pattern_place pathParts, pattern_search pathParts,
                              pattern_short urlObj, pattern_query urlObj] of
              Inl e \<Rightarrow> Inl e
            | Inr (Some result) \<Rightarrow> Inr result
            | Inr None \<Rightarrow>
                (if js_includes (hostname urlObj) (lit ''maps.app.goo.gl'')
                 then Inr (lit ''Google Maps Location'')
                 else Inl (Error (lit ''Could not extract place name from this URL format'')))))"

definition tryBody :: "(jsstring \<Rightarrow> url option) \<Rightarrow> jsstring \<Rightarrow> js_error + jsstring" where
  "tryBody newURL url =
     (case newURL (cleanUrl url) of
        None \<Rightarrow> Inl (TypeError (lit ''Invalid URL''))
      | Some urlObj \<Rightarrow> extractName urlObj)"

text \<open>The \<open>catch\<close> clause: an error whose message includes \<open>Invalid URL\<close> is replaced.\<close>

definition catchClause :: "js_error \<Rightarrow> js_error" where
  "catchClause error =
     (if js_includes (message error) (lit ''Invalid URL'')
      then Error (lit ''Please provide a valid URL'') else error)"

definition parseGoogleMapsUrl :: "(jsstring \<Rightarrow> url option) \<Rightarrow> jsstring \<Rightarrow> js_error + jsstring" where
  "parseGoogleMapsUrl newURL url =
     (case tryBody newURL url of
        Inl error \<Rightarrow> Inl (catchClause error)
      | Inr result \<Rightarrow> Inr result)"

section \<open>Shapes of analysis results\<close>

text \<open>
  What the validation of \<open>analyzeReviews\<close> guarantees of a result: the sentiment is truthy
  (not \<open>null\<close>, \<open>false\<close>, \<open>0\<close> or empty) and each of the six list-typed fields is an
  array. Neither the label nor the entries of the arrays are looked at.
\<close>

definition repairedShape :: "analysis_result \<Rightarrow> bool" where
  "repairedShape r =
     (truthy (overallSentiment r) \<and> isArray (topicSummaries r) \<and> isArray (keyInsights r) \<and>
      isArray (commonPhrases r) \<and> isArray (customerPainPoints r) \<and>
      isArray (positiveHighlights r) \<and> isArray (recommendations r))"

text \<open>
  A structurally valid \<open>AnalysisResult\<close> in the words of the specification (its data
  model): \<open>overallSentiment\<close> is one of the three labels, \<open>topicSummaries\<close> is a list of
  objects with a string \<open>topic\<close>, a string \<open>summary\<close> and a number \<open>mentionCount\<close>, and each
  of the other five fields is a list of strings.
\<close>

fun isString :: "json \<Rightarrow> bool" where
  "isString (JStr s) = True"
| "isString v = False"

fun isNumber :: "json \<Rightarrow> bool" where
  "isNumber (JNum q) = True"
| "isNumber v = False"

fun hasProperty :: "(json \<Rightarrow> bool) \<Rightarrow> json option \<Rightarrow> bool" where
  "hasProperty P (Some v) = P v"
| "hasProperty P None = False"

fun isTopicSummary :: "json \<Rightarrow> bool" where
  "isTopicSummary (JObj kvs) =
     (hasProperty isString (map_of kvs (lit ''topic'')) \<and>
      hasProperty isString (map_of kvs (lit ''summary'')) \<and>
      hasProperty isNumber (map_of kvs (lit ''mentionCount'')))"
| "isTopicSummary v = False"

fun isListOf :: "(json \<Rightarrow> bool) \<Rightarrow> json \<Rightarrow> bool" where
  "isListOf P (JArr xs) = list_all P xs"
| "isListOf P v = False"

text \<open>The three sentiment labels.\<close>

definition sentimentLabels :: "json set" where
  "sentimentLabels = {JStr (lit ''positive''), JStr (lit ''negative''), JStr (lit ''mixed'')}"

definition structurallyValid :: "analysis_result \<Rightarrow> bool" where
  "structurallyValid r =
     (overallSentiment r \<in> sentimentLabels \<and>
      isListOf isTopicSummary (topicSummaries r) \<and>
      isListOf isString (keyInsights r) \<and>
      isListOf isString (commonPhrases r) \<and>
      isListOf isString (customerPainPoints r) \<and>
      isListOf isString (positiveHighlights r) \<and>
      isListOf isString (recommendations r))"

text \<open>
  The sentiment of a validated result, said of the property read from the parsed object:
  its value is kept as it is when it is truthy, and \<open>mixed\<close> stands in for a falsy value
  and for a missing property.
\<close>

fun spec_sentiment :: "json option \<Rightarrow> json" where
  "spec_sentiment None = JStr (lit ''mixed'')"
| "spec_sentiment (Some v) = (if truthy v then v else JStr (lit ''mixed''))"

text \<open>
  The repair of a list-typed field in the words of the specification: the value of the
  property is kept when it is a list, and the empty list stands in for anything else and
  for a missing property.
\<close>

fun spec_listField :: "json option \<Rightarrow> json" where
  "spec_listField (Some (JArr xs)) = JArr xs"
| "spec_listField other = JArr []"

text \<open>The number of entries of an array; \<open>None\<close> for a value that is not an array.\<close>

fun arrayLength :: "json \<Rightarrow> nat option" where
  "arrayLength (JArr xs) = Some (length xs)"
| "arrayLength v = None"

text \<open>Whether a string starts with white space.\<close>

definition leadingWhiteSpace :: "jsstring \<Rightarrow> bool" where
  "leadingWhiteSpace u = (case u of [] \<Rightarrow> False | c # cs \<Rightarrow> isWhiteSpace c)"

text \<open>
  A number of tenths below 100 printed with one decimal: the digit of the units, a point
  and the digit of the tenths.
\<close>

definition oneDecimal :: "nat \<Rightarrow> jsstring" where
  "oneDecimal t = [of_nat (48 + t div 10), 0x2E, of_nat (48 + t mod 10)]"

text \<open>
  Whether \<open>(s / 25).toFixed(1)\<close> prints the tenth nearest to the quotient of \<open>s\<close> by 25,
  and whether it does so for the \<open>k\<close> sums from \<open>lo\<close> on.
\<close>

definition agrees25 :: "nat \<Rightarrow> bool" where
  "agrees25 s = (toFixed1 (js_divide s 25) = oneDecimal ((2 * s + 2) div 5))"

fun agreesFrom :: "nat \<Rightarrow> nat \<Rightarrow> bool" where
  "agreesFrom lo 0 = True"
| "agreesFrom lo (Suc k) = (agrees25 lo \<and> agreesFrom (lo + 1) k)"

section \<open>Example inputs\<close>

text \<open>A raw review with a text and a rating, as the provider sends it.\<close>

definition rawReview :: "string \<Rightarrow> nat \<Rightarrow> raw_review" where
  "rawReview t n =
     \<lparr> raw_text = Some \<lparr> lt_text = Some (lit t) \<rparr>, raw_originalText = None,
       raw_rating = Some n, raw_publishTime = None \<rparr>"

text \<open>A place with 61 raw reviews: a short one, then 60 copies of a substantial one.\<close>

definition cafeDetails :: place_details where
  "cafeDetails =
     \<lparr> displayName = Some \<lparr> lt_text = Some (lit ''Cafe'') \<rparr>,
       pd_reviews = Some (rawReview ''Nice'' 4 #
                          replicate 60 (rawReview ''Great food and friendly staff'' 5)) \<rparr>"

definition cafeResponse :: http_response where
  "cafeResponse = \<lparr> ok = True, status = 200, json_body = Inr cafeDetails \<rparr>"

definition cafeBatch :: review_batch where
  "cafeBatch =
     \<lparr> name = Some (lit ''Cafe''),
       batch_reviews = replicate 50
         \<lparr> r_text = lit ''Great food and friendly staff'', r_rating = Some 5, r_time = None \<rparr>,
       totalFound = 50, totalAvailable = 61, limitApplied = True \<rparr>"

text \<open>A place whose two reviews have at most 10 code units of text.\<close>

definition kioskDetails :: place_details where
  "kioskDetails =
     \<lparr> displayName = None,
       pd_reviews = Some [rawReview ''Nice'' 4, rawReview ''Ten chars.'' 2] \<rparr>"

definition kioskResponse :: http_response where
  "kioskResponse = \<lparr> ok = True, status = 200, json_body = Inr kioskDetails \<rparr>"

text \<open>
  \<open>toLowerCase\<close> on strings of ASCII code units, where it maps \<open>A\<close> to \<open>Z\<close> to \<open>a\<close> to
  \<open>z\<close> and leaves the rest.
\<close>

definition asciiLower :: "jsstring \<Rightarrow> jsstring" where
  "asciiLower s = map (\<lambda>c. if 0x41 \<le> c \<and> c \<le> 0x5A then c + 0x20 else c) s"

text \<open>\<open>JSON.parse\<close> on the texts of a table, which lists their values.\<close>

definition parseAt :: "(jsstring \<times> json) list \<Rightarrow> jsstring \<Rightarrow> js_error + json" where
  "parseAt table text =
     (case map_of table text of
        Some v \<Rightarrow> Inr v
      | None \<Rightarrow> Inl (SyntaxError (lit ''Unexpected token'')))"

text \<open>A host whose provider call fails.\<close>

definition failingHost :: host where
  "failingHost =
     \<lparr> generateContent = (\<lambda>p. Inl (Error (lit ''fetch failed''))),
       JSON_parse = parseAt [],
       toLowerCase = asciiLower \<rparr>"

text \<open>A host whose provider answers in prose, without a brace.\<close>

definition proseHost :: host where
  "proseHost =
     \<lparr> generateContent = (\<lambda>p. Inr (lit ''I cannot analyze these reviews.'')),
       JSON_parse = parseAt [],
       toLowerCase = asciiLower \<rparr>"

text \<open>A host whose provider answers with braces around a text that is not JSON.\<close>

definition brokenHost :: host where
  "brokenHost =
     \<lparr> generateContent = (\<lambda>p. Inr (lit ''Here you go: {oops} '')),
       JSON_parse = parseAt [],
       toLowerCase = asciiLower \<rparr>"

text \<open>A host whose provider answers with a sentiment outside the three labels.\<close>

definition neutralAnswer :: jsstring where
  \<open>neutralAnswer = lit ''{"overallSentiment": "neutral"}''\<close>

definition neutralHost :: host where
  "neutralHost =
     \<lparr> generateContent = (\<lambda>p. Inr neutralAnswer),
       JSON_parse = parseAt
         [(neutralAnswer, JObj [(lit ''overallSentiment'', JStr (lit ''neutral''))])],
       toLowerCase = asciiLower \<rparr>"

definition neutralResult :: analysis_result where
  "neutralResult =
     \<lparr> overallSentiment = JStr (lit ''neutral''), topicSummaries = JArr [],
       keyInsights = JArr [], commonPhrases = JArr [], customerPainPoints = JArr [],
       positiveHighlights = JArr [], recommendations = JArr [] \<rparr>"

text \<open>
  A host whose provider answers with a number for the sentiment and a list holding
  \<open>null\<close> for the topic summaries.
\<close>

definition junkObject :: "(jsstring \<times> json) list" where
  "junkObject =
     [(lit ''overallSentiment'', JNum 7), (lit ''topicSummaries'', JArr [JNull])]"

definition junkAnswer :: jsstring where
  \<open>junkAnswer = lit ''{"overallSentiment": 7, "topicSummaries": [null]}''\<close>

definition junkHost :: host where
  "junkHost =
     \<lparr> generateContent = (\<lambda>p. Inr junkAnswer),
       JSON_parse = parseAt [(junkAnswer, JObj junkObject)],
       toLowerCase = asciiLower \<rparr>"

definition junkResult :: analysis_result where
  "junkResult =
     \<lparr> overallSentiment = JNum 7, topicSummaries = JArr [JNull],
       keyInsights = JArr [], commonPhrases = JArr [], customerPainPoints = JArr [],
       positiveHighlights = JArr [], recommendations = JArr [] \<rparr>"

text \<open>A host whose provider answers with an empty string for the sentiment.\<close>

definition falsyAnswer :: jsstring where
  \<open>falsyAnswer = lit ''{"overallSentiment": ""}''\<close>

definition falsyHost :: host where
  "falsyHost =
     \<lparr> generateContent = (\<lambda>p. Inr falsyAnswer),
       JSON_parse = parseAt [(falsyAnswer, JObj [(lit ''overallSentiment'', JStr [])])],
       toLowerCase = asciiLower \<rparr>"

text \<open>
  A host whose provider answers, in a fenced block, with an object that has one list, one
  field that should be a list and is a string, and no sentiment.
\<close>

definition partialObject :: "(jsstring \<times> json) list" where
  "partialObject =
     [(lit ''keyInsights'', JArr [JStr (lit ''Fast service'')]),
      (lit ''commonPhrases'', JStr (lit ''great food''))]"

definition partialHost :: host where
  \<open>partialHost =
     \<lparr> generateContent = (\<lambda>p. Inr
         (lit ''```json\<newline>{"keyInsights": ["Fast service"], "commonPhrases": "great food"}\<newline>```'')),
       JSON_parse = parseAt
         [(lit ''{"keyInsights": ["Fast service"], "commonPhrases": "great food"}'',
           JObj partialObject)],
       toLowerCase = asciiLower \<rparr>\<close>


text \<open>
  Reviews with a common text and the given ratings, and the 25 ratings of the end-to-end
  scenario: 18 of at least 4, 3 of at most 2, four of 3.
\<close>

definition reviewsOf :: "string \<Rightarrow> nat list \<Rightarrow> review list" where
  "reviewsOf t ratings =
     map (\<lambda>n. \<lparr> r_text = lit t, r_rating = Some n, r_time = None \<rparr>) ratings"

definition scenarioRatings :: "nat list" where
  "scenarioRatings =
     [5, 5, 5, 4, 5, 1, 5, 4, 5, 5, 3, 5, 5, 2, 5, 3, 4, 5, 1, 5, 3, 5, 4, 3, 5]"

definition scenarioReviews :: "review list" where
  "scenarioReviews = reviewsOf ''Great food and friendly staff'' scenarioRatings"

text \<open>
  The same ratings under another text; one review that matches no keyword; and four
  reviews of which three have no rating.
\<close>

definition otherReviews :: "review list" where
  "otherReviews = reviewsOf ''Terrible, the worst service'' scenarioRatings"

definition plainReviews :: "review list" where
  "plainReviews = reviewsOf ''Okay place, nothing special'' [3]"

definition unratedReviews :: "review list" where
  "unratedReviews =
     replicate 3 \<lparr> r_text = lit ''No stars were given here'', r_rating = None, r_time = None \<rparr> @
     reviewsOf ''Great food and friendly staff'' [5]"

text \<open>Three reviews with keywords in their texts.\<close>

definition threeReviews :: "review list" where
  "threeReviews =
     [\<lparr> r_text = lit ''Great food, loved it'', r_rating = Some 5, r_time = None \<rparr>,
      \<lparr> r_text = lit ''Terrible and awful service'', r_rating = Some 1, r_time = None \<rparr>,
      \<lparr> r_text = lit ''It was good, the BEST'', r_rating = Some 4, r_time = None \<rparr>]"

text \<open>
  \<open>new URL\<close> on the strings of a table, which lists for each the URL object that the
  parser of the URL standard returns, or \<open>None\<close> where it throws. The parser removes
  leading and trailing spaces and control characters; a string that then does not start
  with a letter has no scheme and, without a base URL, is rejected.
\<close>

definition urlOf :: "string \<Rightarrow> string \<Rightarrow> string \<Rightarrow> url" where
  "urlOf h p q = \<lparr> hostname = lit h, pathname = lit p, search = lit q \<rparr>"

definition parsedURLs :: "(jsstring \<times> url option) list" where
  "parsedURLs =
     [(lit ''https://maps.app.goo.gl/abc123'',
         Some (urlOf ''maps.app.goo.gl'' ''/abc123'' [])),
      (lit '' @https://maps.app.goo.gl/abc123'', None),
      (lit ''https://maps.google.com/maps/place/Restaurant+Name'',
         Some (urlOf ''maps.google.com'' ''/maps/place/Restaurant+Name'' [])),
      (lit ''https://maps.google.com/?q=Business+Name'',
         Some (urlOf ''maps.google.com'' ''/'' ''?q=Business+Name'')),
      (lit ''https://maps.google.com/maps/place/100%25'',
         Some (urlOf ''maps.google.com'' ''/maps/place/100%25'' [])),
      (lit ''https://maps.google.com/?q=100%25'',
         Some (urlOf ''maps.google.com'' ''/'' ''?q=100%25'')),
      (lit ''https://maps.google.com/maps/place/%2541'',
         Some (urlOf ''maps.google.com'' ''/maps/place/%2541'' [])),
      (lit ''https://maps.google.com/?q=%2541'',
         Some (urlOf ''maps.google.com'' ''/'' ''?q=%2541'')),
      (lit ''invalid-url'', None)]"

definition newURLAt :: "jsstring \<Rightarrow> url option" where
  "newURLAt s = (case map_of parsedURLs s of Some r \<Rightarrow> r | None \<Rightarrow> None)"

section \<open>Properties of the review fetcher\<close>

lemma maxReviews_config: "maxReviews config = 50"
  by (simp add: config_def)

lemma getPlaceReviews_ok:
  assumes "ok response" and "json_body response = Inr d"
  shows "getPlaceReviews response =
    (if filter substantial (map mapReview (rawReviews d)) = []
     then Inl (Error (lit ''No substantial reviews found for this place.''))
     else Inr \<lparr> name = opt_text (displayName d),
                batch_reviews = take 50 (filter substantial (map mapReview (rawReviews d))),
                totalFound = min (length (filter substantial (map mapReview (rawReviews d)))) 50,
                totalAvailable = length (rawReviews d),
                limitApplied = (length (rawReviews d) > 50) \<rparr>)"
  using assms by (simp add: getPlaceReviews_def maxReviews_config Let_def)

lemma getPlaceReviews_Inr_ok:
  assumes "getPlaceReviews response = Inr b"
  shows "ok response"
  using assms by (auto simp: getPlaceReviews_def split: if_splits)

text \<open>
  C3. Whenever \<open>getPlaceReviews\<close> returns a batch for a response whose body holds the raw
  review list \<open>rawReviews d\<close>: \<open>totalAvailable\<close> is the number of raw reviews before
  filtering; the batch's list \<open>reviews\<close> (here \<open>batch_reviews\<close>) is the first
  \<open>maxReviews\<close> of the mapped reviews with more than 10 code units of text, in the
  provider's order, so its length is the minimum of the number of such reviews and
  \<open>maxReviews\<close>; \<open>totalFound\<close> is the length of that list; and \<open>limitApplied\<close> holds
  exactly when \<open>totalAvailable\<close> exceeds \<open>maxReviews\<close>.
\<close>

theorem getPlaceReviews_batch:
  assumes "getPlaceReviews response = Inr b" and "json_body response = Inr d"
  shows "totalAvailable b = length (rawReviews d) \<and>
         batch_reviews b = take (maxReviews config)
                       (filter (\<lambda>r. length (r_text r) > 10) (map mapReview (rawReviews d))) \<and>
         length (batch_reviews b) =
           min (length (filter (\<lambda>r. length (r_text r) > 10) (map mapReview (rawReviews d))))
               (maxReviews config) \<and>
         totalFound b = length (batch_reviews b) \<and>
         limitApplied b = (totalAvailable b > maxReviews config)"
proof -
  have sub: "substantial = (\<lambda>r. length (r_text r) > 10)"
    by (rule ext) (simp add: substantial_def)
  have "ok response"
    using assms(1) by (rule getPlaceReviews_Inr_ok)
  from getPlaceReviews_ok [OF this assms(2)] assms(1) show ?thesis
    by (auto simp: sub maxReviews_config split: if_splits)
qed

theorem getPlaceReviews_batch_witness:
  "getPlaceReviews cafeResponse = Inr cafeBatch \<and> json_body cafeResponse = Inr cafeDetails \<and>
   totalAvailable cafeBatch = length (rawReviews cafeDetails) \<and>
   length (batch_reviews cafeBatch) = 50 \<and>
   totalFound cafeBatch = 50 \<and> limitApplied cafeBatch"
proof -
  have run: "getPlaceReviews cafeResponse = Inr cafeBatch"
    by (simp add: getPlaceReviews_def cafeResponse_def cafeDetails_def cafeBatch_def
        config_def rawReviews_def mapReview_def rawReview_def opt_text_def first_text_def
        substantial_def lit_def)
  have body: "json_body cafeResponse = Inr cafeDetails"
    by (simp add: cafeResponse_def)
  from getPlaceReviews_batch [OF run body] run body show ?thesis
    by (simp add: cafeBatch_def)
qed

text \<open>
  C7. Given a successful response of the place-detail provider (\<open>ok\<close>, with a body),
  \<open>getPlaceReviews\<close> throws the error "No substantial reviews found for this place."
  exactly when no mapped review has more than 10 code units of text, and it returns a
  batch exactly when some mapped review has; an error and a batch exclude each other.
\<close>

theorem getPlaceReviews_NoReviews_iff:
  assumes "ok response" and "json_body response = Inr d"
  shows "(getPlaceReviews response =
            Inl (Error (lit ''No substantial reviews found for this place.''))) =
         (\<forall>r \<in> set (map mapReview (rawReviews d)). \<not> length (r_text r) > 10) \<and>
         (\<exists>b. getPlaceReviews response = Inr b) =
         (\<exists>r \<in> set (map mapReview (rawReviews d)). length (r_text r) > 10)"
proof -
  have "(filter substantial (map mapReview (rawReviews d)) = []) =
        (\<forall>r \<in> set (map mapReview (rawReviews d)). \<not> length (r_text r) > 10)"
    by (simp add: filter_empty_conv substantial_def)
  with getPlaceReviews_ok [OF assms] show ?thesis
    by (auto split: if_splits)
qed

theorem getPlaceReviews_NoReviews_iff_witness:
  "ok kioskResponse \<and> json_body kioskResponse = Inr kioskDetails \<and>
   getPlaceReviews kioskResponse =
     Inl (Error (lit ''No substantial reviews found for this place.'')) \<and>
   \<not> (\<exists>b. getPlaceReviews kioskResponse = Inr b)"
proof -
  have h1: "ok kioskResponse"
    by (simp add: kioskResponse_def)
  have h2: "json_body kioskResponse = Inr kioskDetails"
    by (simp add: kioskResponse_def)
  have short: "\<forall>r \<in> set (map mapReview (rawReviews kioskDetails)). \<not> length (r_text r) > 10"
    by (simp add: kioskDetails_def rawReviews_def mapReview_def rawReview_def opt_text_def
        first_text_def lit_def)
  from getPlaceReviews_NoReviews_iff [OF h1 h2] short h1 h2 show ?thesis
    by auto
qed

section \<open>Properties of the analysis engine\<close>

lemma repairedShape_fallback: "repairedShape (generateFallbackAnalysis lc placeName reviews)"
  by (simp add: repairedShape_def generateFallbackAnalysis_def sentimentOf_def lit_def)

lemma isArray_arrayOrEmpty: "isArray (arrayOrEmpty analysis f)"
  by (simp add: arrayOrEmpty_def split: option.splits json.splits)

lemma truthy_sentimentOrMixed: "truthy (sentimentOrMixed analysis)"
  by (simp add: sentimentOrMixed_def lit_def split: option.splits)

lemma repairedShape_validated:
  "validatedAnalysis analysis = Inr v \<Longrightarrow> repairedShape v"
  by (auto simp: validatedAnalysis_def repairedShape_def isArray_arrayOrEmpty
      truthy_sentimentOrMixed split: if_splits)

lemma repairedShape_primaryPath:
  "primaryPath h placeName reviews = Inr v \<Longrightarrow> repairedShape v"
  by (auto simp: primaryPath_def repairedShape_fallback repairedShape_validated
      split: sum.splits option.splits)

lemma analyzeReviews_repairedShape:
  "\<exists>r. analyzeReviews h placeName reviews = Inr r \<and> repairedShape r"
  by (cases "primaryPath h placeName reviews")
     (simp_all add: analyzeReviews_def repairedShape_fallback repairedShape_primaryPath)

text \<open>
  The exceptions of the primary path: the provider call (or reading the text of its
  response) throws, \<open>JSON.parse\<close> throws on the extracted text, or the parsed value is
  \<open>null\<close>, whose properties cannot be read. The clean-up of the response and the
  extraction of the JSON text work on a string and throw nothing.
\<close>

lemma primaryPath_throws:
  "(\<exists>e. primaryPath h placeName reviews = Inl e) =
   ((\<exists>e. generateContent h (prompt placeName reviews) = Inl e) \<or>
    (\<exists>responseText text.
        generateContent h (prompt placeName reviews) = Inr responseText \<and>
        jsonMatch (cleanResponse responseText) = Some text \<and>
        ((\<exists>e. JSON_parse h text = Inl e) \<or> JSON_parse h text = Inr JNull)))"
  by (auto simp: primaryPath_def validatedAnalysis_def split: sum.splits option.splits if_splits)

lemma noBrace_prose:
  "jsonMatch (cleanResponse (lit ''I cannot analyze these reviews.'')) = None"
  by (simp add: jsonMatch_def cleanResponse_def trim_def trimStart_def trimEnd_def
      isWhiteSpace_def startsWith_def fence_def lit_def)

lemma spec_listField_field:
  "arrayOrEmpty analysis f = spec_listField (field analysis f)"
  by (cases "field analysis f" rule: spec_listField.cases) (simp_all add: arrayOrEmpty_def)

lemma sentimentOrMixed_spec:
  "sentimentOrMixed analysis = spec_sentiment (field analysis (lit ''overallSentiment''))"
  by (cases "field analysis (lit ''overallSentiment'')") (simp_all add: sentimentOrMixed_def)

lemma validatedAnalysis_JObj:
  "validatedAnalysis (JObj kvs) =
     Inr \<lparr> overallSentiment = spec_sentiment (map_of kvs (lit ''overallSentiment'')),
           topicSummaries = spec_listField (map_of kvs (lit ''topicSummaries'')),
           keyInsights = spec_listField (map_of kvs (lit ''keyInsights'')),
           commonPhrases = spec_listField (map_of kvs (lit ''commonPhrases'')),
           customerPainPoints = spec_listField (map_of kvs (lit ''customerPainPoints'')),
           positiveHighlights = spec_listField (map_of kvs (lit ''positiveHighlights'')),
           recommendations = spec_listField (map_of kvs (lit ''recommendations'')) \<rparr>"
  by (simp add: validatedAnalysis_def spec_listField_field sentimentOrMixed_spec)

lemma analyzeReviews_object:
  assumes "generateContent h (prompt placeName reviews) = Inr responseText"
    and "jsonMatch (cleanResponse responseText) = Some jsonText"
    and "JSON_parse h jsonText = Inr (JObj kvs)"
  shows "analyzeReviews h placeName reviews = validatedAnalysis (JObj kvs)"
  using assms by (simp add: analyzeReviews_def primaryPath_def validatedAnalysis_def)

lemma list_all_JStr: "list_all isString (map JStr xs)"
  by (induction xs) simp_all

lemma sentimentOf_label: "JStr (sentimentOf reviews) \<in> sentimentLabels"
  by (simp add: sentimentOf_def sentimentLabels_def)

lemma structurallyValid_fallback:
  "structurallyValid (generateFallbackAnalysis lc placeName reviews)"
proof -
  have keys: "lit ''topic'' \<noteq> lit ''summary''" "lit ''mentionCount'' \<noteq> lit ''topic''"
    "lit ''mentionCount'' \<noteq> lit ''summary''"
    by (simp_all add: lit_def)
  show ?thesis
    using keys
    by (simp add: structurallyValid_def generateFallbackAnalysis_def sentimentOf_label
        list_all_JStr)
qed

text \<open>
  C1, as the code has it. For every host, place name and review list (the empty list
  included), \<open>analyzeReviews\<close> resolves and never rejects, and its result has a truthy
  sentiment and arrays in the six list-typed fields. The fallback analysis is always a
  structurally valid \<open>AnalysisResult\<close>, and it is exactly the result whenever the \<open>try\<close>
  block throws an exception or the cleaned response has no substring from an opening to
  a closing brace. When the provider's answer holds a JSON object, the result is that
  object validated: a truthy \<open>overallSentiment\<close> is kept as it is (\<open>mixed\<close> otherwise) and
  each list-typed property is kept when it is a list (the empty list otherwise); the
  label and the entries of the lists are not checked.
\<close>

theorem analyzeReviews_absorbs_failures:
  "(\<exists>r. analyzeReviews h placeName reviews = Inr r \<and> repairedShape r) \<and>
   structurallyValid (generateFallbackAnalysis (toLowerCase h) placeName reviews) \<and>
   ((\<exists>e. primaryPath h placeName reviews = Inl e) \<or>
    (\<exists>responseText. generateContent h (prompt placeName reviews) = Inr responseText \<and>
       jsonMatch (cleanResponse responseText) = None)
    \<longrightarrow> analyzeReviews h placeName reviews =
          Inr (generateFallbackAnalysis (toLowerCase h) placeName reviews)) \<and>
   (generateContent h (prompt placeName reviews) = Inr answer \<and>
    jsonMatch (cleanResponse answer) = Some jsonText \<and>
    JSON_parse h jsonText = Inr (JObj kvs)
    \<longrightarrow> analyzeReviews h placeName reviews =
          Inr \<lparr> overallSentiment = spec_sentiment (map_of kvs (lit ''overallSentiment'')),
                topicSummaries = spec_listField (map_of kvs (lit ''topicSummaries'')),
                keyInsights = spec_listField (map_of kvs (lit ''keyInsights'')),
                commonPhrases = spec_listField (map_of kvs (lit ''commonPhrases'')),
                customerPainPoints = spec_listField (map_of kvs (lit ''customerPainPoints'')),
                positiveHighlights = spec_listField (map_of kvs (lit ''positiveHighlights'')),
                recommendations = spec_listField (map_of kvs (lit ''recommendations'')) \<rparr>)"
proof (intro conjI impI)
  show "\<exists>r. analyzeReviews h placeName reviews = Inr r \<and> repairedShape r"
    by (rule analyzeReviews_repairedShape)
next
  show "structurallyValid (generateFallbackAnalysis (toLowerCase h) placeName reviews)"
    by (rule structurallyValid_fallback)
next
  assume "(\<exists>e. primaryPath h placeName reviews = Inl e) \<or>
    (\<exists>responseText. generateContent h (prompt placeName reviews) = Inr responseText \<and>
       jsonMatch (cleanResponse responseText) = None)"
  then show "analyzeReviews h placeName reviews =
          Inr (generateFallbackAnalysis (toLowerCase h) placeName reviews)"
  proof
    assume "\<exists>e. primaryPath h placeName reviews = Inl e"
    then show ?thesis by (auto simp: analyzeReviews_def)
  next
    assume "\<exists>responseText. generateContent h (prompt placeName reviews) = Inr responseText \<and>
       jsonMatch (cleanResponse responseText) = None"
    then have "primaryPath h placeName reviews =
       Inr (generateFallbackAnalysis (toLowerCase h) placeName reviews)"
      by (auto simp: primaryPath_def)
    then show ?thesis by (simp add: analyzeReviews_def)
  qed
next
  assume "generateContent h (prompt placeName reviews) = Inr answer \<and>
    jsonMatch (cleanResponse answer) = Some jsonText \<and>
    JSON_parse h jsonText = Inr (JObj kvs)"
  then have "analyzeReviews h placeName reviews = validatedAnalysis (JObj kvs)"
    by (simp add: analyzeReviews_object)
  then show "analyzeReviews h placeName reviews =
          Inr \<lparr> overallSentiment = spec_sentiment (map_of kvs (lit ''overallSentiment'')),
                topicSummaries = spec_listField (map_of kvs (lit ''topicSummaries'')),
                keyInsights = spec_listField (map_of kvs (lit ''keyInsights'')),
                commonPhrases = spec_listField (map_of kvs (lit ''commonPhrases'')),
                customerPainPoints = spec_listField (map_of kvs (lit ''customerPainPoints'')),
                positiveHighlights = spec_listField (map_of kvs (lit ''positiveHighlights'')),
                recommendations = spec_listField (map_of kvs (lit ''recommendations'')) \<rparr>"
    by (simp add: validatedAnalysis_JObj)
qed

lemma junk_match: "jsonMatch (cleanResponse junkAnswer) = Some junkAnswer"
  by (simp add: junkAnswer_def jsonMatch_def cleanResponse_def trim_def trimStart_def trimEnd_def
      isWhiteSpace_def startsWith_def fence_def lit_def)

lemma junk_lookups:
  "map_of junkObject (lit ''overallSentiment'') = Some (JNum 7)"
  "map_of junkObject (lit ''topicSummaries'') = Some (JArr [JNull])"
  "map_of junkObject (lit ''keyInsights'') = None"
  "map_of junkObject (lit ''commonPhrases'') = None"
  "map_of junkObject (lit ''customerPainPoints'') = None"
  "map_of junkObject (lit ''positiveHighlights'') = None"
  "map_of junkObject (lit ''recommendations'') = None"
  by (simp_all add: junkObject_def lit_def)

lemma junk_parse: "JSON_parse junkHost junkAnswer = Inr (JObj junkObject)"
  by (simp add: junkHost_def parseAt_def)

lemma junk_run: "analyzeReviews junkHost None scenarioReviews = Inr junkResult"
proof -
  have "generateContent junkHost (prompt None scenarioReviews) = Inr junkAnswer"
    by (simp add: junkHost_def)
  from analyzeReviews_object [OF this junk_match junk_parse] show ?thesis
    by (simp add: validatedAnalysis_JObj junk_lookups junkResult_def)
qed

lemma junk_invalid: "\<not> structurallyValid junkResult"
  by (simp add: structurallyValid_def junkResult_def sentimentLabels_def)

text \<open>
  C1 as stated fails: a result of the primary path need not be a structurally valid
  \<open>AnalysisResult\<close>. When the provider answers
  \<open>{"overallSentiment": 7, "topicSummaries": [null]}\<close>, the result has the number 7 for its
  sentiment and a list holding \<open>null\<close> for its topic summaries.
\<close>

theorem analyzeReviews_valid_counterexample:
  "analyzeReviews junkHost None scenarioReviews = Inr junkResult \<and>
   \<not> structurallyValid junkResult"
  using junk_run junk_invalid by simp

theorem analyzeReviews_absorbs_failures_witness:
  "primaryPath failingHost None scenarioReviews = Inl (Error (lit ''fetch failed'')) \<and>
   analyzeReviews failingHost None scenarioReviews =
     Inr (generateFallbackAnalysis asciiLower None scenarioReviews) \<and>
   jsonMatch (cleanResponse (lit ''I cannot analyze these reviews.'')) = None \<and>
   analyzeReviews proseHost None scenarioReviews =
     Inr (generateFallbackAnalysis asciiLower None scenarioReviews) \<and>
   primaryPath brokenHost None scenarioReviews = Inl (SyntaxError (lit ''Unexpected token'')) \<and>
   analyzeReviews brokenHost None scenarioReviews =
     Inr (generateFallbackAnalysis asciiLower None scenarioReviews) \<and>
   structurallyValid (generateFallbackAnalysis asciiLower None scenarioReviews) \<and>
   JSON_parse junkHost junkAnswer =
     Inr (JObj junkObject) \<and>
   analyzeReviews junkHost None scenarioReviews = Inr junkResult \<and>
   repairedShape junkResult"
proof -
  have braces: "jsonMatch (cleanResponse (lit ''Here you go: {oops} '')) = Some (lit ''{oops}'')"
    by (simp add: jsonMatch_def cleanResponse_def trim_def trimStart_def trimEnd_def
        isWhiteSpace_def startsWith_def fence_def lit_def)
  have broken: "primaryPath brokenHost None scenarioReviews =
      Inl (SyntaxError (lit ''Unexpected token''))"
    by (simp add: primaryPath_def brokenHost_def braces parseAt_def)
  from analyzeReviews_absorbs_failures [of brokenHost None scenarioReviews] broken
  have d: "analyzeReviews brokenHost None scenarioReviews =
     Inr (generateFallbackAnalysis asciiLower None scenarioReviews)"
    by (simp add: brokenHost_def)
  have thrown: "primaryPath failingHost None scenarioReviews = Inl (Error (lit ''fetch failed''))"
    by (simp add: primaryPath_def failingHost_def)
  have prose: "generateContent proseHost (prompt None scenarioReviews) =
      Inr (lit ''I cannot analyze these reviews.'')"
    by (simp add: proseHost_def)
  have lc: "toLowerCase failingHost = asciiLower" "toLowerCase proseHost = asciiLower"
    by (simp_all add: failingHost_def proseHost_def)
  from analyzeReviews_absorbs_failures [of failingHost None scenarioReviews] thrown
  have a: "analyzeReviews failingHost None scenarioReviews =
     Inr (generateFallbackAnalysis asciiLower None scenarioReviews)"
    by (simp add: lc)
  from analyzeReviews_absorbs_failures [of proseHost None scenarioReviews] prose noBrace_prose
  have b: "analyzeReviews proseHost None scenarioReviews =
     Inr (generateFallbackAnalysis asciiLower None scenarioReviews)"
    by (auto simp: lc)
  from analyzeReviews_absorbs_failures [of failingHost None scenarioReviews]
  have c: "structurallyValid (generateFallbackAnalysis asciiLower None scenarioReviews)"
    by (simp add: lc)
  have answer: "generateContent junkHost (prompt None scenarioReviews) =
      Inr junkAnswer"
    by (simp add: junkHost_def)
  from analyzeReviews_absorbs_failures [of junkHost None scenarioReviews
      junkAnswer
      junkAnswer junkObject]
    answer junk_match junk_parse
  have j: "analyzeReviews junkHost None scenarioReviews = Inr junkResult"
    by (simp add: junk_lookups junkResult_def)
  have shape: "repairedShape junkResult"
    by (simp add: repairedShape_def junkResult_def)
  from thrown a noBrace_prose b broken d c junk_parse j shape show ?thesis by simp
qed




lemma partial_lookups:
  "map_of partialObject (lit ''overallSentiment'') = None"
  "map_of partialObject (lit ''topicSummaries'') = None"
  "map_of partialObject (lit ''keyInsights'') = Some (JArr [JStr (lit ''Fast service'')])"
  "map_of partialObject (lit ''commonPhrases'') = Some (JStr (lit ''great food''))"
  "map_of partialObject (lit ''customerPainPoints'') = None"
  "map_of partialObject (lit ''positiveHighlights'') = None"
  "map_of partialObject (lit ''recommendations'') = None"
  by (simp_all add: partialObject_def lit_def)

lemma partial_match:
  \<open>jsonMatch (cleanResponse
     (lit ''```json\<newline>{"keyInsights": ["Fast service"], "commonPhrases": "great food"}\<newline>```'')) =
   Some (lit ''{"keyInsights": ["Fast service"], "commonPhrases": "great food"}'')\<close>
  by (simp add: jsonMatch_def cleanResponse_def trim_def trimStart_def trimEnd_def
      isWhiteSpace_def startsWith_def endsWith_def strip_fence_end_def fence_def lit_def)



lemma fallback_sentiment_label:
  "overallSentiment (generateFallbackAnalysis lc placeName reviews) \<in> sentimentLabels"
  by (simp add: generateFallbackAnalysis_def sentimentOf_label)

lemma validated_sentiment:
  assumes "validatedAnalysis analysis = Inr v"
  shows "overallSentiment v = spec_sentiment (field analysis (lit ''overallSentiment''))"
  using assms by (auto simp: validatedAnalysis_def sentimentOrMixed_spec split: if_splits)

text \<open>
  Every result comes from one of two places: it is the fallback analysis, or it is the
  validation of the value that \<open>JSON.parse\<close> returned for the text extracted from the
  provider's answer.
\<close>

lemma analyzeReviews_origin:
  assumes "analyzeReviews h placeName reviews = Inr r"
  shows "r = generateFallbackAnalysis (toLowerCase h) placeName reviews \<or>
         (\<exists>answer jsonText analysis.
            generateContent h (prompt placeName reviews) = Inr answer \<and>
            jsonMatch (cleanResponse answer) = Some jsonText \<and>
            JSON_parse h jsonText = Inr analysis \<and>
            validatedAnalysis analysis = Inr r)"
  using assms
  by (auto simp: analyzeReviews_def primaryPath_def split: sum.splits option.splits)

text \<open>
  C5, as the code has it. The fallback analysis always has one of the three labels for
  \<open>overallSentiment\<close>. When the provider's answer holds a JSON object, the result of
  \<open>analyzeReviews\<close> has for \<open>overallSentiment\<close> the value of the object's property, kept as
  it is whenever it is truthy, whatever it is, and \<open>mixed\<close> when the property is missing or
  its value is falsy. So every result has one of the three labels or the truthy value
  that the parsed answer gave for the property.
\<close>

theorem overallSentiment_values:
  "overallSentiment (generateFallbackAnalysis lc placeName reviews) \<in> sentimentLabels \<and>
   (generateContent h (prompt placeName reviews) = Inr answer \<and>
    jsonMatch (cleanResponse answer) = Some jsonText \<and>
    JSON_parse h jsonText = Inr (JObj kvs) \<longrightarrow>
      (\<exists>r. analyzeReviews h placeName reviews = Inr r \<and>
           (\<forall>v. map_of kvs (lit ''overallSentiment'') = Some v \<and> truthy v \<longrightarrow>
                overallSentiment r = v) \<and>
           (\<forall>v. map_of kvs (lit ''overallSentiment'') = Some v \<and> \<not> truthy v \<longrightarrow>
                overallSentiment r = JStr (lit ''mixed'')) \<and>
           (map_of kvs (lit ''overallSentiment'') = None \<longrightarrow>
                overallSentiment r = JStr (lit ''mixed'')))) \<and>
   (analyzeReviews h placeName reviews = Inr result \<longrightarrow>
      overallSentiment result \<in> sentimentLabels \<or>
      (\<exists>answer' jsonText' analysis v.
         generateContent h (prompt placeName reviews) = Inr answer' \<and>
         jsonMatch (cleanResponse answer') = Some jsonText' \<and>
         JSON_parse h jsonText' = Inr analysis \<and>
         field analysis (lit ''overallSentiment'') = Some v \<and> truthy v \<and>
         overallSentiment result = v))"
proof (intro conjI impI)
  show "overallSentiment (generateFallbackAnalysis lc placeName reviews) \<in> sentimentLabels"
    by (rule fallback_sentiment_label)
next
  assume "generateContent h (prompt placeName reviews) = Inr answer \<and>
    jsonMatch (cleanResponse answer) = Some jsonText \<and>
    JSON_parse h jsonText = Inr (JObj kvs)"
  then have "analyzeReviews h placeName reviews = validatedAnalysis (JObj kvs)"
    by (simp add: analyzeReviews_object)
  then show "\<exists>r. analyzeReviews h placeName reviews = Inr r \<and>
           (\<forall>v. map_of kvs (lit ''overallSentiment'') = Some v \<and> truthy v \<longrightarrow>
                overallSentiment r = v) \<and>
           (\<forall>v. map_of kvs (lit ''overallSentiment'') = Some v \<and> \<not> truthy v \<longrightarrow>
                overallSentiment r = JStr (lit ''mixed'')) \<and>
           (map_of kvs (lit ''overallSentiment'') = None \<longrightarrow>
                overallSentiment r = JStr (lit ''mixed''))"
    by (auto simp: validatedAnalysis_JObj)
next
  assume run: "analyzeReviews h placeName reviews = Inr result"
  from analyzeReviews_origin [OF run]
  show "overallSentiment result \<in> sentimentLabels \<or>
      (\<exists>answer' jsonText' analysis v.
         generateContent h (prompt placeName reviews) = Inr answer' \<and>
         jsonMatch (cleanResponse answer') = Some jsonText' \<and>
         JSON_parse h jsonText' = Inr analysis \<and>
         field analysis (lit ''overallSentiment'') = Some v \<and> truthy v \<and>
         overallSentiment result = v)"
  proof
    assume "result = generateFallbackAnalysis (toLowerCase h) placeName reviews"
    then show ?thesis by (simp add: fallback_sentiment_label)
  next
    assume "\<exists>answer jsonText analysis.
            generateContent h (prompt placeName reviews) = Inr answer \<and>
            jsonMatch (cleanResponse answer) = Some jsonText \<and>
            JSON_parse h jsonText = Inr analysis \<and>
            validatedAnalysis analysis = Inr result"
    then obtain answer' jsonText' analysis where
      got: "generateContent h (prompt placeName reviews) = Inr answer'"
        "jsonMatch (cleanResponse answer') = Some jsonText'"
        "JSON_parse h jsonText' = Inr analysis"
      and valid: "validatedAnalysis analysis = Inr result"
      by blast
    from validated_sentiment [OF valid]
    have s: "overallSentiment result =
        spec_sentiment (field analysis (lit ''overallSentiment''))" .
    show ?thesis
    proof (cases "field analysis (lit ''overallSentiment'')")
      case None
      with s show ?thesis by (simp add: sentimentLabels_def)
    next
      case (Some v)
      show ?thesis
      proof (cases "truthy v")
        case True
        with s Some got show ?thesis by auto
      next
        case False
        with s Some show ?thesis by (simp add: sentimentLabels_def)
      qed
    qed
  qed
qed

lemma neutral_match: "jsonMatch (cleanResponse neutralAnswer) = Some neutralAnswer"
  by (simp add: neutralAnswer_def jsonMatch_def cleanResponse_def trim_def trimStart_def trimEnd_def
      isWhiteSpace_def startsWith_def fence_def lit_def)

lemma neutral_run: "analyzeReviews neutralHost None scenarioReviews = Inr neutralResult"
  apply (simp add: analyzeReviews_def primaryPath_def neutralHost_def neutral_match parseAt_def)
  apply (simp add: validatedAnalysis_def arrayOrEmpty_def sentimentOrMixed_def neutralResult_def lit_def)
  done

lemma neutral_not_label: "JStr (lit ''neutral'') \<notin> sentimentLabels"
  by (simp add: sentimentLabels_def lit_def)

text \<open>
  C5 as stated fails: when the provider answers \<open>{"overallSentiment": "neutral"}\<close>, the
  result of \<open>analyzeReviews\<close> has the sentiment \<open>neutral\<close>, which is none of the three
  labels.
\<close>

theorem overallSentiment_counterexample:
  "analyzeReviews neutralHost None scenarioReviews = Inr neutralResult \<and>
   overallSentiment neutralResult \<notin> sentimentLabels"
  using neutral_run neutral_not_label by (simp add: neutralResult_def)

lemma falsy_match: "jsonMatch (cleanResponse falsyAnswer) = Some falsyAnswer"
  by (simp add: falsyAnswer_def jsonMatch_def cleanResponse_def trim_def trimStart_def
      trimEnd_def isWhiteSpace_def startsWith_def fence_def lit_def)

lemma neutral_parse:
  "JSON_parse neutralHost neutralAnswer =
     Inr (JObj [(lit ''overallSentiment'', JStr (lit ''neutral''))])"
  by (simp add: neutralHost_def parseAt_def)

lemma falsy_parse:
  "JSON_parse falsyHost falsyAnswer = Inr (JObj [(lit ''overallSentiment'', JStr [])])"
  by (simp add: falsyHost_def parseAt_def)

lemma partial_parse:
  \<open>JSON_parse partialHost
     (lit ''{"keyInsights": ["Fast service"], "commonPhrases": "great food"}'') =
   Inr (JObj partialObject)\<close>
  by (simp add: partialHost_def parseAt_def)

theorem overallSentiment_values_witness:
  "JSON_parse neutralHost neutralAnswer =
     Inr (JObj [(lit ''overallSentiment'', JStr (lit ''neutral''))]) \<and>
   truthy (JStr (lit ''neutral'')) \<and>
   (\<exists>r. analyzeReviews neutralHost None scenarioReviews = Inr r \<and>
        overallSentiment r = JStr (lit ''neutral'')) \<and>
   JSON_parse falsyHost falsyAnswer = Inr (JObj [(lit ''overallSentiment'', JStr [])]) \<and>
   \<not> truthy (JStr []) \<and>
   (\<exists>r. analyzeReviews falsyHost None scenarioReviews = Inr r \<and>
        overallSentiment r = JStr (lit ''mixed'')) \<and>
   map_of partialObject (lit ''overallSentiment'') = None \<and>
   (\<exists>r. analyzeReviews partialHost None scenarioReviews = Inr r \<and>
        overallSentiment r = JStr (lit ''mixed'')) \<and>
   overallSentiment (generateFallbackAnalysis asciiLower None scenarioReviews) \<in> sentimentLabels"
proof -
  have neutral: "generateContent neutralHost (prompt None scenarioReviews) = Inr neutralAnswer"
    by (simp add: neutralHost_def)
  have word: "truthy (JStr (lit ''neutral''))"
    by (simp add: lit_def)
  from overallSentiment_values [of asciiLower None scenarioReviews neutralHost neutralAnswer
      neutralAnswer "[(lit ''overallSentiment'', JStr (lit ''neutral''))]"]
    neutral neutral_match neutral_parse word
  have kept: "\<exists>r. analyzeReviews neutralHost None scenarioReviews = Inr r \<and>
      overallSentiment r = JStr (lit ''neutral'')"
    by auto
  have falsy: "generateContent falsyHost (prompt None scenarioReviews) = Inr falsyAnswer"
    by (simp add: falsyHost_def)
  from overallSentiment_values [of asciiLower None scenarioReviews falsyHost falsyAnswer
      falsyAnswer "[(lit ''overallSentiment'', JStr [])]"] falsy falsy_match falsy_parse
  have replaced: "\<exists>r. analyzeReviews falsyHost None scenarioReviews = Inr r \<and>
      overallSentiment r = JStr (lit ''mixed'')"
    by auto
  have fenced: \<open>generateContent partialHost (prompt None scenarioReviews) = Inr
      (lit ''```json\<newline>{"keyInsights": ["Fast service"], "commonPhrases": "great food"}\<newline>```'')\<close>
    by (simp add: partialHost_def)
  from overallSentiment_values [of asciiLower None scenarioReviews partialHost
      \<open>lit ''```json\<newline>{"keyInsights": ["Fast service"], "commonPhrases": "great food"}\<newline>```''\<close>
      \<open>lit ''{"keyInsights": ["Fast service"], "commonPhrases": "great food"}''\<close>
      partialObject] fenced partial_match partial_parse partial_lookups(1)
  have absent: "\<exists>r. analyzeReviews partialHost None scenarioReviews = Inr r \<and>
      overallSentiment r = JStr (lit ''mixed'')"
    by auto
  from overallSentiment_values [of asciiLower None scenarioReviews]
  have label: "overallSentiment (generateFallbackAnalysis asciiLower None scenarioReviews)
      \<in> sentimentLabels"
    by simp
  from neutral_parse word kept falsy_parse replaced partial_lookups(1) absent label
  show ?thesis by simp
qed

section \<open>Properties of the fallback analysis\<close>

text \<open>
  C10. For every review list (the empty one included), the fallback analysis has exactly 1
  topic summary, 3 key insights, 2 recommendations and 1 positive highlight, between 1 and
  5 common phrases and between 1 and 3 pain points; when no positive keyword is found the
  common phrases are the placeholder \<open>N/A\<close> and the highlight is the generic sentence, and
  when no negative keyword is found the pain points are the placeholder.
\<close>

theorem fallback_list_shapes:
  "arrayLength (topicSummaries (generateFallbackAnalysis lc placeName reviews)) = Some 1 \<and>
   arrayLength (keyInsights (generateFallbackAnalysis lc placeName reviews)) = Some 3 \<and>
   arrayLength (recommendations (generateFallbackAnalysis lc placeName reviews)) = Some 2 \<and>
   arrayLength (positiveHighlights (generateFallbackAnalysis lc placeName reviews)) = Some 1 \<and>
   (\<exists>n. arrayLength (commonPhrases (generateFallbackAnalysis lc placeName reviews)) = Some n \<and>
        1 \<le> n \<and> n \<le> 5) \<and>
   (\<exists>n. arrayLength (customerPainPoints (generateFallbackAnalysis lc placeName reviews)) = Some n \<and>
        1 \<le> n \<and> n \<le> 3) \<and>
   (foundPositive lc reviews = [] \<longrightarrow>
      commonPhrases (generateFallbackAnalysis lc placeName reviews) = JArr [JStr (lit ''N/A'')] \<and>
      positiveHighlights (generateFallbackAnalysis lc placeName reviews) =
        JArr [JStr (lit ''Generally positive customer feedback'')]) \<and>
   (foundNegative lc reviews = [] \<longrightarrow>
      customerPainPoints (generateFallbackAnalysis lc placeName reviews) =
        JArr [JStr (lit ''No major pain points identified'')])"
proof -
  have p: "foundPositive lc reviews \<noteq> [] \<Longrightarrow>
      1 \<le> length (take 5 (foundPositive lc reviews))"
    by (cases "foundPositive lc reviews") simp_all
  have n: "foundNegative lc reviews \<noteq> [] \<Longrightarrow>
      1 \<le> length (take 3 (foundNegative lc reviews))"
    by (cases "foundNegative lc reviews") simp_all
  show ?thesis
    using p n by (simp add: generateFallbackAnalysis_def)
qed

lemma plain_found:
  "foundPositive asciiLower plainReviews = []" "foundNegative asciiLower plainReviews = []"
  by (simp_all add: foundPositive_def foundNegative_def allText_def plainReviews_def
      reviewsOf_def asciiLower_def commonWords_def negativeWords_def startsWith_def lit_def)

theorem fallback_list_shapes_witness:
  "foundPositive asciiLower plainReviews = [] \<and> foundNegative asciiLower plainReviews = [] \<and>
   commonPhrases (generateFallbackAnalysis asciiLower None plainReviews) = JArr [JStr (lit ''N/A'')] \<and>
   positiveHighlights (generateFallbackAnalysis asciiLower None plainReviews) =
     JArr [JStr (lit ''Generally positive customer feedback'')] \<and>
   customerPainPoints (generateFallbackAnalysis asciiLower None plainReviews) =
     JArr [JStr (lit ''No major pain points identified'')] \<and>
   arrayLength (keyInsights (generateFallbackAnalysis asciiLower None plainReviews)) = Some 3"
  using fallback_list_shapes [of asciiLower None plainReviews] plain_found
  by simp

lemma foldl_rating:
  "foldl (\<lambda>sum r. sum + rating_or_0 r) a reviews =
   a + sum_list (map (\<lambda>x. case x of None \<Rightarrow> 0 | Some n \<Rightarrow> n) (map r_rating reviews))"
  by (induction reviews arbitrary: a) (simp_all add: rating_or_0_def)

lemma totalRating_ratings:
  "totalRating reviews =
   sum_list (map (\<lambda>x. case x of None \<Rightarrow> 0 | Some n \<Rightarrow> n) (map r_rating reviews))"
  by (simp add: totalRating_def foldl_rating)

lemma positiveReviews_ratings:
  "positiveReviews reviews =
   length (filter (\<lambda>x. 4 \<le> (case x of None \<Rightarrow> 0 | Some n \<Rightarrow> n)) (map r_rating reviews))"
  by (simp add: positiveReviews_def rating_or_0_def filter_map comp_def)

lemma negativeReviews_ratings:
  "negativeReviews reviews =
   length (filter (\<lambda>x. (case x of None \<Rightarrow> 0 | Some n \<Rightarrow> n) \<le> 2) (map r_rating reviews))"
  by (simp add: negativeReviews_def rating_or_0_def filter_map comp_def)

lemma length_ratings: "length reviews = length (map r_rating reviews)"
  by simp

text \<open>
  C8. When two review lists have the same sequence of ratings (hence the same length),
  whatever their texts, place names and case mappings, the fallback analysis computes the
  same average rating and the same \<open>overallSentiment\<close> for both. The analysis is a function
  of its arguments, so a repeated call on the same input gives the same label.
\<close>

theorem fallback_depends_on_ratings_only:
  assumes "map r_rating reviews = map r_rating reviews'"
  shows "avgRating reviews = avgRating reviews' \<and>
         overallSentiment (generateFallbackAnalysis lc placeName reviews) =
         overallSentiment (generateFallbackAnalysis lc' placeName' reviews')"
proof -
  have len: "length reviews = length reviews'"
    using assms length_ratings by metis
  have "avgRating reviews = avgRating reviews'"
    using assms len by (simp add: avgRating_def totalRating_ratings)
  moreover have "sentimentOf reviews = sentimentOf reviews'"
    using assms by (simp add: sentimentOf_def positiveReviews_ratings negativeReviews_ratings)
  ultimately show ?thesis
    by (simp add: generateFallbackAnalysis_def)
qed


lemma ratings_reviewsOf: "map r_rating (reviewsOf t ratings) = map Some ratings"
  by (simp add: reviewsOf_def comp_def)

lemma bits_0: "bits 0 = 0"
  by (simp add: bits.simps)

lemma bits_One: "bits 1 = 1"
  by (simp add: bits.simps)

lemma bits_Bit0: "bits (numeral (Num.Bit0 n)) = Suc (bits (numeral n))"
  by (subst bits.simps) simp

lemma bits_Bit1: "bits (numeral (Num.Bit1 n)) = Suc (bits (numeral n))"
  by (subst bits.simps) simp

lemmas number_eval = js_divide_def fl_ratio_def bits_0 bits_One bits_Bit0 bits_Bit1
  round_half_even_def tenths_def Let_def show_nat.simps digit_def

theorem fallback_depends_on_ratings_only_witness:
  "map r_rating scenarioReviews = map r_rating otherReviews \<and>
   map r_text scenarioReviews \<noteq> map r_text otherReviews \<and>
   avgRating scenarioReviews = avgRating otherReviews \<and>
   overallSentiment (generateFallbackAnalysis asciiLower None scenarioReviews) =
   overallSentiment (generateFallbackAnalysis asciiLower None otherReviews)"
proof -
  have same: "map r_rating scenarioReviews = map r_rating otherReviews"
    by (simp add: scenarioReviews_def otherReviews_def ratings_reviewsOf)
  have differ: "map r_text scenarioReviews \<noteq> map r_text otherReviews"
    by (simp add: scenarioReviews_def otherReviews_def reviewsOf_def scenarioRatings_def lit_def)
  from fallback_depends_on_ratings_only [OF same, of asciiLower None asciiLower None]
    same differ
  show ?thesis by simp
qed

lemma agreesFrom_numeral:
  "agreesFrom lo (numeral k) = (agrees25 lo \<and> agreesFrom (lo + 1) (pred_numeral k))"
  by (simp add: numeral_eq_Suc)

lemma agreesFrom_One: "agreesFrom lo 1 = agrees25 lo"
  by simp

lemma bits_Suc0: "bits (Suc 0) = Suc 0"
  by (simp add: bits.simps)

lemma agreesFrom_covers:
  "agreesFrom lo k \<Longrightarrow> lo \<le> s \<Longrightarrow> s < lo + k \<Longrightarrow> agrees25 s"
proof (induction k arbitrary: lo)
  case 0
  then show ?case by simp
next
  case (Suc k)
  show ?case
  proof (cases "s = lo")
    case True
    with Suc.prems show ?thesis by simp
  next
    case False
    with Suc.prems have "agreesFrom (lo + 1) k" "lo + 1 \<le> s" "s < (lo + 1) + k"
      by simp_all
    then show ?thesis by (rule Suc.IH)
  qed
qed

lemma agrees25_0: "agrees25 0"
  by (simp add: agrees25_def oneDecimal_def number_eval lit_def)

lemma agrees25_1: "agrees25 1"
  by (simp add: agrees25_def oneDecimal_def number_eval bits_Suc0 lit_def)

lemma agrees25_from_2: "agreesFrom 2 124"
  by (simp add: agreesFrom_numeral agreesFrom_One agrees25_def oneDecimal_def number_eval
      bits_Suc0 lit_def)

text \<open>
  For every sum of 25 ratings of at most 5, \<open>toFixed(1)\<close> of the quotient by 25 prints
  the nearest tenth: each of the 126 sums is computed.
\<close>

lemma agrees25_upto:
  assumes "s \<le> 125"
  shows "agrees25 s"
proof -
  consider "s = 0" | "s = 1" | "2 \<le> s"
    by linarith
  then show ?thesis
  proof cases
    case 1
    with agrees25_0 show ?thesis by simp
  next
    case 2
    with agrees25_1 show ?thesis by simp
  next
    case 3
    from agrees25_from_2 3 show ?thesis
      by (rule agreesFrom_covers) (use assms in simp)
  qed
qed

lemma sum_list_bounded:
  "list_all (\<lambda>x. f x \<le> (b::nat)) xs \<Longrightarrow> sum_list (map f xs) \<le> b * length xs"
  by (induction xs) auto

text \<open>
  C6. For every review list, with a missing rating counted as 0, the sentiment of the
  fallback analysis is \<open>positive\<close> when the reviews rated at least 4 are more than twice
  those rated at most 2, \<open>negative\<close> when those rated at most 2 are more than twice those
  rated at least 4, and \<open>mixed\<close> otherwise. In particular, for 25 reviews of which 18 are
  rated at least 4 and 3 at most 2, the sentiment is \<open>positive\<close>; and for 25 reviews with
  ratings of at most 5 and sum \<open>S\<close>, the first key insight is \<open>Average rating: \<close>, the
  mean \<open>S / 25\<close> to one decimal place and \<open>/5 stars\<close>, where the mean to one decimal place is
  \<open>t\<close> tenths for the one \<open>t\<close> within a twentieth of the mean, \<open>|t / 10 - S / 25| < 1 / 20\<close>,
  which is \<open>|5 t - 2 S| \<le> 2\<close>, printed as the digit of \<open>t div 10\<close>, a point and the digit of
  \<open>t mod 10\<close>.
\<close>

theorem fallback_sentiment_rule:
   "overallSentiment (generateFallbackAnalysis lc placeName reviews) =
      JStr (if length (filter (\<lambda>r. 4 \<le> (case r_rating r of None \<Rightarrow> 0 | Some n \<Rightarrow> n)) reviews) >
               2 * length (filter (\<lambda>r. (case r_rating r of None \<Rightarrow> 0 | Some n \<Rightarrow> n) \<le> 2) reviews)
            then lit ''positive''
            else if length (filter (\<lambda>r. (case r_rating r of None \<Rightarrow> 0 | Some n \<Rightarrow> n) \<le> 2) reviews) >
               2 * length (filter (\<lambda>r. 4 \<le> (case r_rating r of None \<Rightarrow> 0 | Some n \<Rightarrow> n)) reviews)
            then lit ''negative''
            else lit ''mixed'') \<and>
    (length reviews = 25 \<and>
     length (filter (\<lambda>r. 4 \<le> (case r_rating r of None \<Rightarrow> 0 | Some n \<Rightarrow> n)) reviews) = 18 \<and>
     length (filter (\<lambda>r. (case r_rating r of None \<Rightarrow> 0 | Some n \<Rightarrow> n) \<le> 2) reviews) = 3 \<longrightarrow>
       overallSentiment (generateFallbackAnalysis lc placeName reviews) = JStr (lit ''positive'')) \<and>
    (length reviews = 25 \<and>
     list_all (\<lambda>r. (case r_rating r of None \<Rightarrow> 0 | Some n \<Rightarrow> n) \<le> 5) reviews \<longrightarrow>
       (\<exists>t rest.
          5 * t \<le> 2 * sum_list (map (\<lambda>r. case r_rating r of None \<Rightarrow> 0 | Some n \<Rightarrow> n) reviews) + 2 \<and>
          2 * sum_list (map (\<lambda>r. case r_rating r of None \<Rightarrow> 0 | Some n \<Rightarrow> n) reviews) \<le> 5 * t + 2 \<and>
          keyInsights (generateFallbackAnalysis lc placeName reviews) =
            JArr (JStr (lit ''Average rating: '' @
                        [of_nat (48 + t div 10), 0x2E, of_nat (48 + t mod 10)] @
                        lit ''/5 stars'') # rest)))"
proof (intro conjI impI)
  have pos: "positiveReviews reviews =
      length (filter (\<lambda>r. 4 \<le> (case r_rating r of None \<Rightarrow> 0 | Some n \<Rightarrow> n)) reviews)"
    by (simp add: positiveReviews_def rating_or_0_def)
  have neg: "negativeReviews reviews =
      length (filter (\<lambda>r. (case r_rating r of None \<Rightarrow> 0 | Some n \<Rightarrow> n) \<le> 2) reviews)"
    by (simp add: negativeReviews_def rating_or_0_def)
  have label: "overallSentiment (generateFallbackAnalysis lc placeName reviews) =
      JStr (sentimentOf reviews)"
    by (simp add: generateFallbackAnalysis_def)
  show rule: "overallSentiment (generateFallbackAnalysis lc placeName reviews) =
      JStr (if length (filter (\<lambda>r. 4 \<le> (case r_rating r of None \<Rightarrow> 0 | Some n \<Rightarrow> n)) reviews) >
               2 * length (filter (\<lambda>r. (case r_rating r of None \<Rightarrow> 0 | Some n \<Rightarrow> n) \<le> 2) reviews)
            then lit ''positive''
            else if length (filter (\<lambda>r. (case r_rating r of None \<Rightarrow> 0 | Some n \<Rightarrow> n) \<le> 2) reviews) >
               2 * length (filter (\<lambda>r. 4 \<le> (case r_rating r of None \<Rightarrow> 0 | Some n \<Rightarrow> n)) reviews)
            then lit ''negative''
            else lit ''mixed'')"
    by (simp add: label sentimentOf_def pos neg mult.commute)
  assume "length reviews = 25 \<and>
     length (filter (\<lambda>r. 4 \<le> (case r_rating r of None \<Rightarrow> 0 | Some n \<Rightarrow> n)) reviews) = 18 \<and>
     length (filter (\<lambda>r. (case r_rating r of None \<Rightarrow> 0 | Some n \<Rightarrow> n) \<le> 2) reviews) = 3"
  with rule show "overallSentiment (generateFallbackAnalysis lc placeName reviews) =
      JStr (lit ''positive'')"
    by simp
next
  let ?S = "sum_list (map (\<lambda>r. case r_rating r of None \<Rightarrow> 0 | Some n \<Rightarrow> n) reviews)"
  let ?t = "(2 * ?S + 2) div 5"
  assume scenario: "length reviews = 25 \<and>
     list_all (\<lambda>r. (case r_rating r of None \<Rightarrow> 0 | Some n \<Rightarrow> n) \<le> 5) reviews"
  then have "list_all (\<lambda>r. (case r_rating r of None \<Rightarrow> 0 | Some n \<Rightarrow> n) \<le> 5) reviews"
    by simp
  then have "?S \<le> 5 * length reviews"
    by (rule sum_list_bounded)
  with scenario have "?S \<le> 125"
    by simp
  then have "agrees25 ?S"
    by (rule agrees25_upto)
  then have printed: "toFixed1 (js_divide ?S 25) =
      [of_nat (48 + ?t div 10), 0x2E, of_nat (48 + ?t mod 10)]"
    by (simp only: agrees25_def oneDecimal_def)
  have total: "totalRating reviews = ?S"
    by (simp add: totalRating_ratings comp_def)
  from scenario have average: "avgRating reviews = js_divide ?S 25"
    by (simp add: avgRating_def total)
  have insight: "\<exists>rest. keyInsights (generateFallbackAnalysis lc placeName reviews) =
      JArr (JStr (lit ''Average rating: '' @
                  [of_nat (48 + ?t div 10), 0x2E, of_nat (48 + ?t mod 10)] @
                  lit ''/5 stars'') # rest)"
    by (simp add: generateFallbackAnalysis_def average printed)
  have "5 * ?t \<le> 2 * ?S + 2" "2 * ?S \<le> 5 * ?t + 2"
    by presburger+
  with insight show "\<exists>t rest.
          5 * t \<le> 2 * ?S + 2 \<and> 2 * ?S \<le> 5 * t + 2 \<and>
          keyInsights (generateFallbackAnalysis lc placeName reviews) =
            JArr (JStr (lit ''Average rating: '' @
                        [of_nat (48 + t div 10), 0x2E, of_nat (48 + t mod 10)] @
                        lit ''/5 stars'') # rest)"
    by blast
qed

lemma scenario_counts:
  "length scenarioReviews = 25"
  "length (filter (\<lambda>r. 4 \<le> (case r_rating r of None \<Rightarrow> 0 | Some n \<Rightarrow> n)) scenarioReviews) = 18"
  "length (filter (\<lambda>r. (case r_rating r of None \<Rightarrow> 0 | Some n \<Rightarrow> n) \<le> 2) scenarioReviews) = 3"
  "sum_list (map (\<lambda>r. case r_rating r of None \<Rightarrow> 0 | Some n \<Rightarrow> n) scenarioReviews) = 102"
  "list_all (\<lambda>r. (case r_rating r of None \<Rightarrow> 0 | Some n \<Rightarrow> n) \<le> 5) scenarioReviews"
  by (simp_all add: scenarioReviews_def reviewsOf_def scenarioRatings_def)

lemma tenths_102: "5 * t \<le> 2 * 102 + 2 \<Longrightarrow> 2 * 102 \<le> 5 * t + 2 \<Longrightarrow> t = (41::nat)"
  by presburger

theorem fallback_sentiment_rule_witness:
  "length scenarioReviews = 25 \<and>
   length (filter (\<lambda>r. 4 \<le> (case r_rating r of None \<Rightarrow> 0 | Some n \<Rightarrow> n)) scenarioReviews) = 18 \<and>
   length (filter (\<lambda>r. (case r_rating r of None \<Rightarrow> 0 | Some n \<Rightarrow> n) \<le> 2) scenarioReviews) = 3 \<and>
   list_all (\<lambda>r. (case r_rating r of None \<Rightarrow> 0 | Some n \<Rightarrow> n) \<le> 5) scenarioReviews \<and>
   sum_list (map (\<lambda>r. case r_rating r of None \<Rightarrow> 0 | Some n \<Rightarrow> n) scenarioReviews) = 102 \<and>
   overallSentiment (generateFallbackAnalysis asciiLower None scenarioReviews) =
     JStr (lit ''positive'') \<and>
   (\<exists>rest. keyInsights (generateFallbackAnalysis asciiLower None scenarioReviews) =
      JArr (JStr (lit ''Average rating: 4.1/5 stars'') # rest)) \<and>
   map r_rating unratedReviews = [None, None, None, Some 5] \<and>
   overallSentiment (generateFallbackAnalysis asciiLower None unratedReviews) =
     JStr (lit ''negative'')"
proof -
  have unrated: "map r_rating unratedReviews = [None, None, None, Some 5]"
    by (simp add: unratedReviews_def reviewsOf_def numeral_3_eq_3)
  from fallback_sentiment_rule [of asciiLower None unratedReviews]
  have negative: "overallSentiment (generateFallbackAnalysis asciiLower None unratedReviews) =
     JStr (lit ''negative'')"
    by (simp add: unratedReviews_def reviewsOf_def numeral_3_eq_3)
  from fallback_sentiment_rule [of asciiLower None scenarioReviews] scenario_counts
  have positive: "overallSentiment (generateFallbackAnalysis asciiLower None scenarioReviews) =
     JStr (lit ''positive'')"
    by simp
  from fallback_sentiment_rule [of asciiLower None scenarioReviews] scenario_counts
  obtain t rest where near: "5 * t \<le> 2 * 102 + 2" "2 * 102 \<le> 5 * t + 2"
    and insight: "keyInsights (generateFallbackAnalysis asciiLower None scenarioReviews) =
      JArr (JStr (lit ''Average rating: '' @
                  [of_nat (48 + t div 10), 0x2E, of_nat (48 + t mod 10)] @
                  lit ''/5 stars'') # rest)"
    by auto
  from near have "t = 41"
    by (rule tenths_102)
  with insight have "keyInsights (generateFallbackAnalysis asciiLower None scenarioReviews) =
      JArr (JStr (lit ''Average rating: 4.1/5 stars'') # rest)"
    by (simp add: lit_def)
  then have first: "\<exists>rest. keyInsights (generateFallbackAnalysis asciiLower None scenarioReviews) =
      JArr (JStr (lit ''Average rating: 4.1/5 stars'') # rest)"
    by blast
  from scenario_counts positive first unrated negative show ?thesis
    by simp
qed

section \<open>Properties of the URL resolver\<close>

lemma at_not_white: "\<not> isWhiteSpace 0x40"
  by (simp add: isWhiteSpace_def)

lemma lit_at: "lit ''@'' = [0x40]"
  by (simp add: lit_def)

lemma trimEnd_Cons:
  assumes "\<not> isWhiteSpace c"
  shows "trimEnd (c # u) = c # trimEnd u"
proof -
  have "dropWhile isWhiteSpace (rev u @ [c]) = dropWhile isWhiteSpace (rev u) @ [c]"
    using assms by (simp add: dropWhile_append dropWhile_eq_Nil_conv)
  then show ?thesis by (simp add: trimEnd_def)
qed

lemma trimStart_Cons:
  "\<not> isWhiteSpace c \<Longrightarrow> trimStart (c # u) = c # u"
  by (simp add: trimStart_def)

lemma trim_Cons:
  "\<not> isWhiteSpace c \<Longrightarrow> trim (c # u) = c # trimEnd u"
  by (simp add: trim_def trimEnd_Cons trimStart_Cons)

lemma cleanUrl_at: "cleanUrl (0x40 # u) = trimEnd u"
  by (simp add: cleanUrl_def trim_Cons at_not_white startsWith_def lit_at)

lemma cleanUrl_plain:
  assumes "\<not> startsWith u (lit ''@'')" and "\<not> leadingWhiteSpace u"
  shows "cleanUrl u = trimEnd u"
proof (cases u)
  case Nil
  then show ?thesis
    by (simp add: cleanUrl_def trim_def trimStart_def trimEnd_def startsWith_def lit_at)
next
  case (Cons c v)
  with assms have c: "\<not> isWhiteSpace c" "c \<noteq> 0x40"
    by (simp_all add: leadingWhiteSpace_def startsWith_def lit_at)
  with Cons show ?thesis
    by (simp add: cleanUrl_def trim_Cons trimEnd_Cons startsWith_def lit_at)
qed

lemma cleanUrl_strips_one:
  assumes "trim s = lit ''@'' @ v"
  shows "cleanUrl s = v"
  using assms by (simp add: cleanUrl_def startsWith_def lit_at)

text \<open>
  C9, as the code has it. The input is trimmed and then loses one leading \<open>@\<close>: when the
  trimmed input is \<open>@\<close> followed by \<open>v\<close>, the string given to the URL parser is \<open>v\<close>,
  whatever \<open>v\<close> starts with. For every string \<open>u\<close> that starts neither with \<open>@\<close> nor with
  white space, \<open>@\<close> followed by \<open>u\<close> is cleaned to the same string as \<open>u\<close> and resolves to
  the same result, value or error, for every URL parser.
\<close>

theorem leading_at_stripped:
  "(trim s = lit ''@'' @ v \<longrightarrow> cleanUrl s = v) \<and>
   (\<not> startsWith u (lit ''@'') \<and> \<not> leadingWhiteSpace u \<longrightarrow>
      cleanUrl (lit ''@'' @ u) = cleanUrl u \<and>
      parseGoogleMapsUrl newURL (lit ''@'' @ u) = parseGoogleMapsUrl newURL u)"
proof (intro conjI impI)
  assume "trim s = lit ''@'' @ v"
  then show "cleanUrl s = v" by (rule cleanUrl_strips_one)
next
  assume u: "\<not> startsWith u (lit ''@'') \<and> \<not> leadingWhiteSpace u"
  then show same: "cleanUrl (lit ''@'' @ u) = cleanUrl u"
    by (simp add: lit_at cleanUrl_at cleanUrl_plain)
  then show "parseGoogleMapsUrl newURL (lit ''@'' @ u) = parseGoogleMapsUrl newURL u"
    by (simp add: parseGoogleMapsUrl_def tryBody_def)
qed

lemmas string_eval = lit_def startsWith_def trim_def trimStart_def trimEnd_def isWhiteSpace_def

lemmas url_eval = parseGoogleMapsUrl_def tryBody_def cleanUrl_def newURLAt_def parsedURLs_def
  urlOf_def extractName_def acceptedHost_def pattern_place_def pattern_search_def
  pattern_short_def pattern_query_def at_index_def decodeName_def replacePlus_def
  decodeURIComponent_def hexOctet_def hexval_def searchParams_get_def urlencoded_parse_def
  formDecode_def splitFirst_def utf8_decode_without_BOM_def utf16_def utf8_def catchClause_def
  sequenceLength_def continuation_def Let_def

lemma short_link: "parseGoogleMapsUrl newURLAt (lit ''https://maps.app.goo.gl/abc123'') =
    Inr (lit ''Location from Google Maps'')"
  by (simp add: string_eval url_eval)

lemma short_link_at: "parseGoogleMapsUrl newURLAt (lit ''@ @https://maps.app.goo.gl/abc123'') =
    Inl (Error (lit ''Please provide a valid URL''))"
  by (simp add: string_eval url_eval)

lemma short_link_space: "parseGoogleMapsUrl newURLAt (lit '' @https://maps.app.goo.gl/abc123'') =
    Inr (lit ''Location from Google Maps'')"
  by (simp add: string_eval url_eval)

text \<open>
  C9 as stated fails for a string that does not start with \<open>@\<close> but has \<open>@\<close> after
  leading white space. With \<open>u\<close> a space followed by \<open>@https://maps.app.goo.gl/abc123\<close>:
  \<open>u\<close> alone is trimmed, loses its \<open>@\<close> and resolves to the placeholder of a short link;
  \<open>@\<close> followed by \<open>u\<close> loses only the first \<open>@\<close>, and the URL parser rejects the rest,
  which after its leading space starts with \<open>@\<close>.
\<close>

theorem leading_at_counterexample:
  "\<not> startsWith (lit '' @https://maps.app.goo.gl/abc123'') (lit ''@'') \<and>
   parseGoogleMapsUrl newURLAt (lit ''@'' @ lit '' @https://maps.app.goo.gl/abc123'') \<noteq>
   parseGoogleMapsUrl newURLAt (lit '' @https://maps.app.goo.gl/abc123'')"
proof -
  have "lit ''@'' @ lit '' @https://maps.app.goo.gl/abc123'' =
      lit ''@ @https://maps.app.goo.gl/abc123''"
    by (simp add: lit_def)
  moreover have "\<not> startsWith (lit '' @https://maps.app.goo.gl/abc123'') (lit ''@'')"
    by (simp add: startsWith_def lit_def)
  ultimately show ?thesis
    by (simp add: short_link_at short_link_space)
qed

theorem leading_at_stripped_witness:
  "trim (lit ''  @@x '') = lit ''@'' @ lit ''@x'' \<and> cleanUrl (lit ''  @@x '') = lit ''@x'' \<and>
   \<not> startsWith (lit ''https://maps.app.goo.gl/abc123'') (lit ''@'') \<and>
   \<not> leadingWhiteSpace (lit ''https://maps.app.goo.gl/abc123'') \<and>
   parseGoogleMapsUrl newURLAt (lit ''@'' @ lit ''https://maps.app.goo.gl/abc123'') =
     Inr (lit ''Location from Google Maps'') \<and>
   parseGoogleMapsUrl newURLAt (lit ''https://maps.app.goo.gl/abc123'') =
     Inr (lit ''Location from Google Maps'')"
proof -
  have t: "trim (lit ''  @@x '') = lit ''@'' @ lit ''@x''"
    by (simp add: string_eval)
  have p: "\<not> startsWith (lit ''https://maps.app.goo.gl/abc123'') (lit ''@'')"
    "\<not> leadingWhiteSpace (lit ''https://maps.app.goo.gl/abc123'')"
    by (simp_all add: startsWith_def leadingWhiteSpace_def isWhiteSpace_def lit_def)
  from leading_at_stripped [of "lit ''  @@x ''" "lit ''@x''"
      "lit ''https://maps.app.goo.gl/abc123''" newURLAt] t p short_link
  show ?thesis by simp
qed

text \<open>
  C4, evaluated on the code. A path segment is given to \<open>decodeURIComponent\<close> as the raw,
  encoded text of the URL. The value of \<open>q\<close> comes from \<open>searchParams.get\<close>, which has
  already decoded it, and is decoded a second time. The raw text \<open>100%25\<close> becomes \<open>100%\<close>
  as a path segment and a \<open>URIError\<close> as a value of \<open>q\<close>; the raw text \<open>%2541\<close> becomes
  \<open>%41\<close> as a path segment and \<open>A\<close> as a value of \<open>q\<close>.
\<close>

theorem query_value_decoded_twice:
  "parseGoogleMapsUrl newURLAt (lit ''https://maps.google.com/maps/place/100%25'') =
     Inr (lit ''100%'') \<and>
   parseGoogleMapsUrl newURLAt (lit ''https://maps.google.com/?q=100%25'') =
     Inl (URIError (lit ''URI malformed'')) \<and>
   parseGoogleMapsUrl newURLAt (lit ''https://maps.google.com/maps/place/%2541'') =
     Inr (lit ''%41'') \<and>
   parseGoogleMapsUrl newURLAt (lit ''https://maps.google.com/?q=%2541'') =
     Inr (lit ''A'')"
  by (simp add: string_eval url_eval)

text \<open>Three of the URLs of \<open>test-urls.js\<close>.\<close>

lemma parseGoogleMapsUrl_examples:
  "parseGoogleMapsUrl newURLAt (lit ''https://maps.google.com/maps/place/Restaurant+Name'') =
     Inr (lit ''Restaurant Name'')"
  "parseGoogleMapsUrl newURLAt (lit ''https://maps.google.com/?q=Business+Name'') =
     Inr (lit ''Business Name'')"
  "parseGoogleMapsUrl newURLAt (lit ''invalid-url'') =
     Inl (Error (lit ''Please provide a valid URL''))"
  by (simp_all add: string_eval url_eval)

section \<open>A worked example of the fallback analysis\<close>

lemma three_counts:
  "length threeReviews = 3" "totalRating threeReviews = 10"
  "positiveReviews threeReviews = 2" "negativeReviews threeReviews = 1"
  by (simp_all add: threeReviews_def totalRating_def positiveReviews_def negativeReviews_def
      rating_or_0_def)

lemma three_text:
  "allText asciiLower threeReviews =
   lit ''great food, loved it terrible and awful service it was good, the best''"
  by (simp add: allText_def threeReviews_def asciiLower_def lit_def)

lemma three_found:
  "foundPositive asciiLower threeReviews = map lit [''great'', ''good'', ''love'', ''best'']"
  "foundNegative asciiLower threeReviews = map lit [''terrible'', ''awful'']"
  by (simp_all add: foundPositive_def foundNegative_def three_text commonWords_def
      negativeWords_def startsWith_def lit_def)

lemma three_numbers:
  "toFixed1 (js_divide 10 3) = lit ''3.3''"
  "js_toString (Math_round (js_times (js_divide 2 3) 100)) = lit ''67''"
  "js_less_ratio (js_divide 10 3) 7 2"
  "show_nat 3 = lit ''3''" "show_nat 2 = lit ''2''" "show_nat 1 = lit ''1''"
  by (simp_all add: number_eval lit_def)

lemma generateFallbackAnalysis_example:
  "generateFallbackAnalysis asciiLower None threeReviews =
     \<lparr> overallSentiment = JStr (lit ''mixed''),
       topicSummaries = JArr
         [JObj
            [(lit ''topic'', JStr (lit ''Overall Experience'')),
             (lit ''summary'', JStr (lit ''Based on 3 reviews with an average rating of 3.3/5 stars. 2 positive reviews vs 1 negative reviews.'')),
             (lit ''mentionCount'', JNum 3)]],
       keyInsights = JArr
         [JStr (lit ''Average rating: 3.3/5 stars''),
          JStr (lit ''67% of reviews are positive (4+ stars)''),
          JStr (lit ''Analyzed 3 customer reviews for patterns and sentiment'')],
       commonPhrases = JArr (map JStr (map lit [''great'', ''good'', ''love'', ''best''])),
       customerPainPoints = JArr (map JStr (map lit [''terrible'', ''awful''])),
       positiveHighlights = JArr
         [JStr (lit ''Customers frequently mention: great, good, love, best'')],
       recommendations = JArr
         [JStr (lit ''Run a full AI analysis for detailed insights''),
          JStr (lit ''Focus on addressing customer concerns'')] \<rparr>"
  apply (simp only: generateFallbackAnalysis_def avgRating_def sentimentOf_def three_counts
      three_found three_numbers)
  apply (simp add: lit_def)
  done

end
